theory Spec2Isabelle
  imports Main "HOL-Library.Word"
begin

section \<open>Expressions, indices and tensor objects\<close>

text \<open>
  GiNaC expressions (\<^verbatim>\<open>ex\<close>) are modelled as syntax trees. The C++ operators
  \<^verbatim>\<open>+\<close>, \<^verbatim>\<open>-\<close>, \<^verbatim>\<open>*\<close> on \<^verbatim>\<open>ex\<close> become the constructors \<open>Add\<close>, \<open>Sub\<close>, \<open>Neg\<close>,
  \<open>Mul\<close>; the automatic re-evaluation that the \<^verbatim>\<open>ex\<close> wrapper performs on every result
  belongs to files that are not part of \<^verbatim>\<open>src/\<close> (ex, mul, add, ncmul, indexed, idx) and is
  not applied here. A numeric or a symbol is an \<open>atom\<close>; index values and index
  dimensions are atoms.
\<close>

datatype atom = Numeric int | Symbol string

text \<open>The index classes \<^verbatim>\<open>idx\<close>, \<^verbatim>\<open>varidx\<close> (with its variance) and \<^verbatim>\<open>spinidx\<close>
  (a \<^verbatim>\<open>varidx\<close> with a dotted flag).\<close>

datatype idx_class = c_idx | c_varidx bool | c_spinidx bool bool

datatype idx = Idx (get_value: atom) (get_dim: atom) (get_class: idx_class)

text \<open>The base objects of indexed expressions: the special tensors of tensor.cpp, the three
  Clifford base objects of clifford.cpp, and any other base (a symbol).\<close>

datatype tensor =
    tensdelta
  | tensmetric
  | minkmetric bool
  | spinmetric
  | tensepsilon bool bool
  | diracone
  | diracgamma
  | diracgamma5
  | symbol_base string

text \<open>\<open>Indexed b is\<close> is an \<^verbatim>\<open>indexed\<close> object: \<^verbatim>\<open>op(0)\<close> is the base \<open>b\<close>, \<^verbatim>\<open>op(1)\<close>,
  \<^verbatim>\<open>op(2)\<close>, ... are the indices \<open>is\<close>. \<open>Clifford b is rl\<close> is a \<^verbatim>\<open>clifford\<close> object (a subclass of
  \<^verbatim>\<open>indexed\<close>) with its representation label, an \<^verbatim>\<open>unsigned char\<close>. \<open>Ncmul\<close> is a held
  non-commutative product.\<close>

datatype ex =
    Atom atom
  | Add ex ex
  | Sub ex ex
  | Mul ex ex
  | Neg ex
  | Indexed tensor "idx list"
  | Clifford tensor "idx list" "8 word"
  | Ncmul "ex list"

definition ex0 :: ex where "ex0 = Atom (Numeric 0)"
definition ex1 :: ex where "ex1 = Atom (Numeric 1)"
definition ex2 :: ex where "ex2 = Atom (Numeric 2)"
definition ex_1 :: ex where "ex_1 = Atom (Numeric (- 1))"
definition ex_2 :: ex where "ex_2 = Atom (Numeric (- 2))"

fun is_clifford :: "ex \<Rightarrow> bool" where
  "is_clifford (Clifford b ixs rl) = True"
| "is_clifford e = False"


text \<open>\<^verbatim>\<open>e.op(0)\<close> of an indexed object: its base. \<open>None\<close> where the expression has no such
  operand.\<close>

fun op0 :: "ex \<Rightarrow> tensor option" where
  "op0 (Clifford b ixs rl) = Some b"
| "op0 (Indexed b ixs) = Some b"
| "op0 e = None"

text \<open>The indices of an indexed object, \<^verbatim>\<open>op(1)\<close> ... \<^verbatim>\<open>op(nops()-1)\<close>.\<close>

fun indices :: "ex \<Rightarrow> idx list" where
  "indices (Clifford b ixs rl) = ixs"
| "indices (Indexed b ixs) = ixs"
| "indices e = []"

text \<open>\<^verbatim>\<open>e.op(i)\<close> for \<open>i \<ge> 1\<close> of an indexed object. Reading an operand that is not there is
  outside the defined behaviour of the C++ (\<^verbatim>\<open>GINAC_ASSERT(i < nops())\<close>); the model
  returns \<open>None\<close>.\<close>

definition op_idx :: "ex \<Rightarrow> nat \<Rightarrow> idx option" where
  "op_idx e i = (if 1 \<le> i \<and> i \<le> length (indices e) then Some (indices e ! (i - 1)) else None)"

definition is_varidx :: "idx \<Rightarrow> bool" where
  "is_varidx i = (get_class i \<noteq> c_idx)"

definition is_covariant :: "idx \<Rightarrow> bool" where
  "is_covariant i = (case get_class i of c_idx \<Rightarrow> False | c_varidx c \<Rightarrow> c | c_spinidx c d \<Rightarrow> c)"

definition is_symbolic :: "idx \<Rightarrow> bool" where
  "is_symbolic i = (case get_value i of Numeric n \<Rightarrow> False | Symbol s \<Rightarrow> True)"

definition replace_dim :: "idx \<Rightarrow> atom \<Rightarrow> idx" where
  "replace_dim i d = Idx (get_value i) d (get_class i)"

subsection \<open>Constructors of tensor.cpp and clifford.cpp\<close>

text \<open>\<open>None\<close> models the \<^verbatim>\<open>std::invalid_argument\<close> the constructor functions throw.\<close>

definition delta_tensor :: "idx \<Rightarrow> idx \<Rightarrow> ex" where
  "delta_tensor i1 i2 = Indexed tensdelta [i1, i2]"


definition lorentz_g :: "idx \<Rightarrow> idx \<Rightarrow> bool \<Rightarrow> ex option" where
  "lorentz_g i1 i2 pos_sig =
     (if \<not> is_varidx i1 \<or> \<not> is_varidx i2 then None else Some (Indexed (minkmetric pos_sig) [i1, i2]))"

definition dirac_ONE :: "8 word \<Rightarrow> ex" where
  "dirac_ONE rl = Clifford diracone [] rl"

definition dirac_gamma :: "idx \<Rightarrow> 8 word \<Rightarrow> ex option" where
  "dirac_gamma mu rl = (if \<not> is_varidx mu then None else Some (Clifford diracgamma [mu] rl))"

definition dirac_gamma5 :: "8 word \<Rightarrow> ex" where
  "dirac_gamma5 rl = Clifford diracgamma5 [] rl"

section \<open>The trace engine (clifford.cpp, \<^verbatim>\<open>trace_string\<close> and \<^verbatim>\<open>dirac_trace\<close>)\<close>

text \<open>
  The value of a trace is a scalar expression built with \<^verbatim>\<open>+\<close>, \<^verbatim>\<open>-\<close>, \<^verbatim>\<open>*\<close> from
  \<^verbatim>\<open>trONE\<close>, the imaginary unit \<^verbatim>\<open>I\<close>, metric tensors \<^verbatim>\<open>lorentz_g(i, j)\<close> and epsilon tensors
  \<^verbatim>\<open>eps0123(i, j, k, l)\<close>. Scalars are taken in an arbitrary commutative ring \<open>'a\<close>; the
  metric, the epsilon tensor and \<open>I\<close> are parameters \<open>g\<close>, \<open>eps\<close>, \<open>I\<close> (the indices of Dirac
  gammas are \<^verbatim>\<open>varidx\<close> by construction, so the type check of \<^verbatim>\<open>lorentz_g\<close> cannot fail
  there).

  \<^verbatim>\<open>trace_string(ix, num)\<close> reads \<^verbatim>\<open>ix[0] .. ix[num-1]\<close>; the model takes that list.
  For \<open>num < 2\<close> the C++ computes \<^verbatim>\<open>exvector v(num - 2)\<close> with an unsigned \<open>num\<close>, which
  throws; the model returns \<open>None\<close>.
\<close>

function trace_string :: "(idx \<Rightarrow> idx \<Rightarrow> 'a::comm_ring_1) \<Rightarrow> idx list \<Rightarrow> 'a option" where
  "trace_string g ix =
     (let num = length ix in
      if num = 2 then Some (g (ix ! 0) (ix ! 1))
      else if num = 4 then
        Some (g (ix ! 0) (ix ! 1) * g (ix ! 2) (ix ! 3)
            + g (ix ! 1) (ix ! 2) * g (ix ! 0) (ix ! 3)
            - g (ix ! 0) (ix ! 2) * g (ix ! 1) (ix ! 3))
      else if num < 2 then None
      else
        map_option snd
          (fold (\<lambda>i acc.
                   case acc of
                     None \<Rightarrow> None
                   | Some (sign, result) \<Rightarrow>
                       (case trace_string g (map ((!) ix) (filter (\<lambda>n. n \<noteq> i) [1..<num])) of
                          None \<Rightarrow> None
                        | Some t \<Rightarrow> Some (- sign, result + of_int sign * g (ix ! 0) (ix ! i) * t)))
             [1..<num] (Some (1::int, 0))))"
  by pat_completeness auto
termination
proof (relation "measure (\<lambda>(g, ix). length ix)")
  show "wf (measure (\<lambda>(g, ix). length ix))" by simp
next
  fix g :: "idx \<Rightarrow> idx \<Rightarrow> 'a" and ix :: "idx list" and num i :: nat
  assume "num = length ix" and "\<not> num < 2"
  have "length (filter (\<lambda>n. n \<noteq> i) [1..<num]) \<le> length [1..<num]"
    by (rule length_filter_le)
  with \<open>num = length ix\<close> \<open>\<not> num < 2\<close>
  show "((g, map ((!) ix) (filter (\<lambda>n. n \<noteq> i) [1..<num])), (g, ix)) \<in> measure (\<lambda>(g, ix). length ix)"
    by simp
qed

text \<open>
  Modelled from the spec: \<^verbatim>\<open>permutation_sign\<close> (utils.h) is not part of \<^verbatim>\<open>src/\<close>. The spec
  (sections 4.5 and 6) describes it as the sign of the permutation that maps the sorted
  sequence to the given one, and 0 if any value repeats: \<open>(-1)\<close> to the number of inversions.
\<close>

fun inversions :: "int list \<Rightarrow> nat" where
  "inversions [] = 0"
| "inversions (x # xs) = length (filter (\<lambda>y. y < x) xs) + inversions xs"

definition permutation_sign :: "int list \<Rightarrow> int" where
  "permutation_sign v = (if distinct v then (- 1) ^ inversions v else 0)"

text \<open>\<^verbatim>\<open>return_type_tinfo()\<close> as far as \<^verbatim>\<open>is_clifford_tinfo\<close> reads it: \<open>Some rl\<close> for
  \<^verbatim>\<open>TINFO_clifford + rl\<close>, \<open>None\<close> for any other type info. A non-commutative product
  reports the type info of its first factor.\<close>

fun return_type_tinfo :: "ex \<Rightarrow> 8 word option" where
  "return_type_tinfo (Clifford b ixs rl) = Some rl"
| "return_type_tinfo (Ncmul (Clifford b ixs rl # fs)) = Some rl"
| "return_type_tinfo e = None"

definition is_clifford_tinfo :: "8 word option \<Rightarrow> 8 word \<Rightarrow> bool" where
  "is_clifford_tinfo ti rl = (ti = Some rl)"

definition is_clifford_tinfo_any :: "8 word option \<Rightarrow> bool" where
  "is_clifford_tinfo_any ti = (ti \<noteq> None)"

text \<open>The four nested loops of the \<^verbatim>\<open>gamma5\<close> branch of \<^verbatim>\<open>dirac_trace\<close>: all
  \<open>i < j < k < l < num\<close> in the order the loops visit them.\<close>

definition quadruples :: "nat \<Rightarrow> (nat \<times> nat \<times> nat \<times> nat) list" where
  "quadruples num =
     concat (map (\<lambda>i. concat (map (\<lambda>j. concat (map (\<lambda>k. map (\<lambda>l. (i, j, k, l)) [k + 1..<num])
       [j + 1..<num - 1])) [i + 1..<num - 2])) [0..<num - 3])"

definition gamma5_sum ::
  "(idx \<Rightarrow> idx \<Rightarrow> 'a::comm_ring_1) \<Rightarrow> (idx \<Rightarrow> idx \<Rightarrow> idx \<Rightarrow> idx \<Rightarrow> 'a) \<Rightarrow> idx list \<Rightarrow> 'a option" where
  "gamma5_sum g eps ix =
     (let num = length ix in
      fold (\<lambda>(i, j, k, l) acc.
              case acc of
                None \<Rightarrow> None
              | Some result \<Rightarrow>
                  (let rest = filter (\<lambda>n. \<not> (n = i \<or> n = j \<or> n = k \<or> n = l)) [0..<num];
                       iv = [i, j, k, l] @ rest;
                       v = map ((!) ix) rest;
                       sign = permutation_sign (map int iv)
                   in case trace_string g v of
                        None \<Rightarrow> None
                      | Some t \<Rightarrow>
                          Some (result + of_int sign * eps (ix ! i) (ix ! j) (ix ! k) (ix ! l) * t)))
        (quadruples num) (Some 0))"

text \<open>
  \<^verbatim>\<open>dirac_trace(e, rl, trONE)\<close> on the two expression classes the trace claims are about:
  a single \<^verbatim>\<open>clifford\<close> object and an \<^verbatim>\<open>ncmul\<close> word. The factors of a word are
  indexed objects, so \<^verbatim>\<open>e.expand()\<close> has nothing to multiply out and returns the word
  itself. The \<^verbatim>\<open>mul\<close> branch and the mapping over other containers recurse through
  classes that are not part of \<^verbatim>\<open>src/\<close>; for those expressions the model returns \<open>None\<close>,
  as it does where the C++ reads an index (\<^verbatim>\<open>e.op(i).op(1)\<close>) of a factor that has none.
  A lone \<^verbatim>\<open>gamma5\<close> as a word of one factor (no evaluated \<^verbatim>\<open>ncmul\<close> has fewer than two) would
  make the unsigned loop bounds \<^verbatim>\<open>num - 3\<close> wrap around and read \<^verbatim>\<open>ix[0]\<close> of an empty vector;
  the model returns \<open>None\<close> there too.
\<close>

definition dirac_trace ::
  "(idx \<Rightarrow> idx \<Rightarrow> 'a::comm_ring_1) \<Rightarrow> (idx \<Rightarrow> idx \<Rightarrow> idx \<Rightarrow> idx \<Rightarrow> 'a) \<Rightarrow> 'a \<Rightarrow>
     ex \<Rightarrow> 8 word \<Rightarrow> 'a \<Rightarrow> 'a option" where
  "dirac_trace g eps I e rl trONE =
     (case e of
        Clifford b ixs l \<Rightarrow> if l = rl \<and> b = diracone then Some trONE else Some 0
      | Ncmul ops \<Rightarrow>
          if \<not> is_clifford_tinfo (return_type_tinfo e) rl then Some 0
          else
            let has_gamma5 = (op0 (ops ! 0) = Some diracgamma5);
                num = length ops
            in
              if has_gamma5 then
                if even num \<or> num = 3 then Some 0
                else if num = 5 then
                  (case those (map (\<lambda>i. op_idx (ops ! i) 1) [1, 2, 3, 4]) of
                     Some [i1, i2, i3, i4] \<Rightarrow> Some (trONE * I * eps i1 i2 i3 i4)
                   | _ \<Rightarrow> None)
                else if num < 5 then None
                else
                  (case those (map (\<lambda>i. op_idx (ops ! i) 1) [1..<num]) of
                     None \<Rightarrow> None
                   | Some ix \<Rightarrow> map_option (\<lambda>result. trONE * I * result) (gamma5_sum g eps ix))
              else
                if odd num then Some 0
                else if num = 2 then
                  (case those (map (\<lambda>i. op_idx (ops ! i) 1) [0, 1]) of
                     Some [i0, i1] \<Rightarrow> Some (trONE * g i0 i1)
                   | _ \<Rightarrow> None)
                else
                  (case those (map (\<lambda>i. op_idx (ops ! i) 1) [0..<num]) of
                     None \<Rightarrow> None
                   | Some iv \<Rightarrow> map_option (\<lambda>t. trONE * t) (trace_string g iv))
      | _ \<Rightarrow> None)"

text \<open>A plain Gamma factor of representation label \<open>rl\<close>: \<^verbatim>\<open>dirac_gamma(mu, rl)\<close>.\<close>

fun plain_gamma :: "8 word \<Rightarrow> ex \<Rightarrow> bool" where
  "plain_gamma rl (Clifford b ixs l) = (b = diracgamma \<and> length ixs = 1 \<and> l = rl)"
| "plain_gamma rl e = False"

text \<open>
  The recursive expansion as the spec words it (section 4.9): for a string of length \<open>N\<close>,
  the sum over \<open>k = 2..N\<close> of \<open>(-1)^k\<close> times \<open>Metric(idx\<^sub>1, idx\<^sub>k)\<close> times the expansion of the
  string with \<open>idx\<^sub>1\<close> and \<open>idx\<^sub>k\<close> removed, bottoming out at length 2 with \<open>Metric(idx\<^sub>1, idx\<^sub>2)\<close>.
  Positions are counted from 1 in the spec and from 0 in the list.
\<close>

function trace_expansion :: "(idx \<Rightarrow> idx \<Rightarrow> 'a::comm_ring_1) \<Rightarrow> idx list \<Rightarrow> 'a" where
  "trace_expansion g ix =
     (let N = length ix in
      if N = 2 then g (ix ! 0) (ix ! 1)
      else if N < 2 then 0
      else
        (\<Sum>k\<leftarrow>[2..<Suc N].
            (- 1) ^ k * g (ix ! 0) (ix ! (k - 1))
              * trace_expansion g (map ((!) ix) (filter (\<lambda>n. n \<noteq> 0 \<and> n \<noteq> k - 1) [0..<N]))))"
  by pat_completeness auto
termination
proof (relation "measure (\<lambda>(g, ix). length ix)")
  show "wf (measure (\<lambda>(g, ix). length ix))" by simp
next
  fix g :: "idx \<Rightarrow> idx \<Rightarrow> 'a" and ix :: "idx list" and N k :: nat
  assume N: "N = length ix" "\<not> N < 2"
  have "filter (\<lambda>n. n \<noteq> 0 \<and> n \<noteq> k - 1) [0..<N] = filter (\<lambda>n. n \<noteq> 0 \<and> n \<noteq> k - 1) [Suc 0..<N]"
    using N by (simp add: upt_rec [of 0])
  moreover have "length (filter (\<lambda>n. n \<noteq> 0 \<and> n \<noteq> k - 1) [Suc 0..<N]) \<le> length [Suc 0..<N]"
    by (rule length_filter_le)
  ultimately
  show "((g, map ((!) ix) (filter (\<lambda>n. n \<noteq> 0 \<and> n \<noteq> k - 1) [0..<N])), (g, ix))
          \<in> measure (\<lambda>(g, ix). length ix)"
    using N by simp
qed

section \<open>Tensor evaluation (tensor.cpp, \<^verbatim>\<open>eval_indexed\<close>)\<close>

text \<open>
  The index algebra (idx.h, idx.cpp) is not part of \<^verbatim>\<open>src/\<close>. The dummy-pair test
  \<^verbatim>\<open>is_dummy_pair\<close> and \<^verbatim>\<open>minimal_dim\<close> are parameters of the functions that call them:
  \<open>dp i j\<close> says whether \<open>i\<close> and \<open>j\<close> form a dummy pair, \<open>md i j\<close> is the minimal dimension
  of the two indices, \<open>None\<close> where \<^verbatim>\<open>minimal_dim\<close> throws.

  Modelled from the spec: \<^verbatim>\<open>indexed::get_dummy_indices\<close> (indexed.cpp) is not part of
  \<^verbatim>\<open>src/\<close>. Following sections 3 and 6 of the spec, the dummy indices of an indexed object
  are the indices of its list that form a dummy pair with a later index of the list.
\<close>

fun get_dummy_indices :: "(idx \<Rightarrow> idx \<Rightarrow> bool) \<Rightarrow> idx list \<Rightarrow> idx list" where
  "get_dummy_indices dp [] = []"
| "get_dummy_indices dp (x # xs) =
     (if list_ex (dp x) xs then x # get_dummy_indices dp xs else get_dummy_indices dp xs)"

text \<open>\<^verbatim>\<open>all_index_values_are(info_flags::nonnegint)\<close>, and \<^verbatim>\<open>to_int()\<close> of an index value,
  which the C++ reads only after that test has succeeded and stores in an \<^verbatim>\<open>int\<close>.
  \<^verbatim>\<open>numeric::to_int\<close> (numeric.cpp) is not part of \<^verbatim>\<open>src/\<close>: the model reads the value where it
  fits an \<^verbatim>\<open>int\<close> of 32 bits, and has no result (\<open>None\<close>) where it does not or where the value
  is not a number.\<close>

definition all_index_values_are_nonnegint :: "idx list \<Rightarrow> bool" where
  "all_index_values_are_nonnegint ixs =
     list_all (\<lambda>i. case get_value i of Numeric n \<Rightarrow> 0 \<le> n | Symbol s \<Rightarrow> False) ixs"

definition int_range :: "int \<Rightarrow> bool" where
  "int_range n = (- (2 ^ 31) \<le> n \<and> n < 2 ^ 31)"

fun to_int :: "atom \<Rightarrow> int option" where
  "to_int (Numeric n) = (if int_range n then Some n else None)"
| "to_int (Symbol s) = None"

definition is_zero :: "atom \<Rightarrow> bool" where
  "is_zero a = (a = Numeric 0)"

text \<open>\<^verbatim>\<open>spinmetric::eval_indexed\<close>; the argument is the index list of the indexed object
  (\<^verbatim>\<open>GINAC_ASSERT(i.nops() == 3)\<close>: two indices).\<close>

definition spinmetric_eval_indexed :: "(idx \<Rightarrow> idx \<Rightarrow> bool) \<Rightarrow> idx list \<Rightarrow> ex option" where
  "spinmetric_eval_indexed dp ixs =
     (case ixs of
        [i1, i2] \<Rightarrow>
          if get_dummy_indices dp ixs \<noteq> [] then Some ex0
          else if all_index_values_are_nonnegint ixs then
            (case (to_int (get_value i1), to_int (get_value i2)) of
               (Some n1, Some n2) \<Rightarrow>
                 if n1 = n2 then Some ex0
                 else if n1 < n2 then Some ex1
                 else Some ex_1
             | _ \<Rightarrow> None)
          else Some (Indexed spinmetric ixs)
      | _ \<Rightarrow> None)"

text \<open>The loop over the indices in the Minkowski case of \<^verbatim>\<open>tensepsilon::eval_indexed\<close>.
  \<open>None\<close> is the \<^verbatim>\<open>std::runtime_error\<close> thrown for an index that is not a \<^verbatim>\<open>varidx\<close>. The
  \<^verbatim>\<open>else\<close> of the C++ belongs to the inner \<^verbatim>\<open>if\<close>.\<close>

definition minkowski_sign_step :: "bool \<Rightarrow> idx \<Rightarrow> int option \<Rightarrow> int option" where
  "minkowski_sign_step pos_sig x acc =
     (case acc of
        None \<Rightarrow> None
      | Some sign \<Rightarrow>
          if \<not> is_varidx x then None
          else if is_covariant x then
            (if is_zero (get_value x) then Some (if pos_sig then - sign else sign)
             else Some (if pos_sig then sign else - sign))
          else Some sign)"

text \<open>\<^verbatim>\<open>tensepsilon::eval_indexed\<close> for the tensor \<^verbatim>\<open>tensepsilon(minkowski, pos_sig)\<close> with the
  index list \<open>ixs\<close>.\<close>

definition tensepsilon_eval_indexed ::
  "(idx \<Rightarrow> idx \<Rightarrow> bool) \<Rightarrow> bool \<Rightarrow> bool \<Rightarrow> idx list \<Rightarrow> ex option" where
  "tensepsilon_eval_indexed dp minkowski pos_sig ixs =
     (if get_dummy_indices dp ixs \<noteq> [] then Some ex0
      else if all_index_values_are_nonnegint ixs then
        (case those (map (\<lambda>i. to_int (get_value i)) ixs) of
           None \<Rightarrow> None
         | Some v \<Rightarrow>
             (let sign = permutation_sign v
              in if minkowski then
                   map_option (\<lambda>s. Atom (Numeric s)) (fold (minkowski_sign_step pos_sig) ixs (Some sign))
                 else Some (Atom (Numeric sign))))
      else Some (Indexed (tensepsilon minkowski pos_sig) ixs))"

text \<open>
  The value the spec's sentence on concrete integer indices gives (section 4.5, as claim C6
  reads it) for indices \<open>ixs\<close> bound to the integers \<open>ns\<close>: the permutation sign, in the
  Minkowski flavour times \<open>-1\<close> (or \<open>+1\<close>, by the signature flag) for each covariant index
  bound to 0, and times nothing for the other indices.
\<close>

definition epsilon_value_spec :: "bool \<Rightarrow> bool \<Rightarrow> int list \<Rightarrow> idx list \<Rightarrow> int" where
  "epsilon_value_spec minkowski pos_sig ns ixs =
     permutation_sign ns
       * (if minkowski then
            prod_list (map (\<lambda>x. if pos_sig then - 1 else 1)
              (filter (\<lambda>x. is_covariant x \<and> is_zero (get_value x)) ixs))
          else 1)"

text \<open>The factor the code applies for one index in the Minkowski flavour.\<close>

definition minkowski_factor :: "bool \<Rightarrow> idx \<Rightarrow> int" where
  "minkowski_factor pos_sig x =
     (if is_covariant x then
        (if is_zero (get_value x) then (if pos_sig then - 1 else 1)
         else (if pos_sig then 1 else - 1))
      else 1)"

section \<open>Contraction rules (tensor.cpp and clifford.cpp, \<^verbatim>\<open>contract_with\<close>)\<close>

text \<open>
  A contraction rule receives two positions \<^verbatim>\<open>self\<close> and \<^verbatim>\<open>other\<close> of the factor vector and
  overwrites entries of it. The rules of tensor.cpp touch \<^verbatim>\<open>*self\<close> and \<^verbatim>\<open>*other\<close> only; their
  models return the flag and the new values of the two entries. \<open>None\<close> stands for an
  operand access that the asserted shape of the factors excludes.

  \<^verbatim>\<open>other->subs(other_idx == new_idx)\<close> replaces the index in the index list of the indexed
  object.
\<close>

fun subs_idx :: "ex \<Rightarrow> idx \<Rightarrow> idx \<Rightarrow> ex" where
  "subs_idx (Indexed b ixs) old new = Indexed b (map (\<lambda>i. if i = old then new else i) ixs)"
| "subs_idx (Clifford b ixs rl) old new = Clifford b (map (\<lambda>i. if i = old then new else i) ixs) rl"
| "subs_idx e old new = e"

text \<open>
  One pass through the block labelled \<^verbatim>\<open>again\<close> of \<^verbatim>\<open>tensor::replace_contr_index\<close>, for one
  choice of \<^verbatim>\<open>self_idx\<close> and \<^verbatim>\<open>free_idx\<close>. \<open>Some r\<close>: the function returns \<open>r\<close> in this pass (at
  the first index of \<^verbatim>\<open>other\<close> that forms a dummy pair with \<^verbatim>\<open>self_idx\<close>); \<open>None\<close>: the pass
  falls through. The \<^verbatim>\<open>try\<close> block is the case distinction on \<open>md\<close>: when \<^verbatim>\<open>minimal_dim\<close>
  throws, the \<^verbatim>\<open>catch\<close> returns false before any assignment.
\<close>

definition replace_contr_index_pass ::
  "(idx \<Rightarrow> idx \<Rightarrow> bool) \<Rightarrow> (idx \<Rightarrow> idx \<Rightarrow> atom option) \<Rightarrow> idx \<Rightarrow> idx \<Rightarrow> ex \<Rightarrow> ex
     \<Rightarrow> (bool \<times> ex \<times> ex) option" where
  "replace_contr_index_pass dp md self_idx free_idx self other =
     (if is_symbolic self_idx then
        (case find (dp self_idx) (indices other) of
           Some other_idx \<Rightarrow>
             (case md self_idx other_idx of
                Some min_dim \<Rightarrow>
                  Some (True, ex1, subs_idx other other_idx (replace_dim free_idx min_dim))
              | None \<Rightarrow> Some (False, self, other))
         | None \<Rightarrow> None)
      else None)"

text \<open>\<^verbatim>\<open>tensor::replace_contr_index(self, other)\<close>: the returned flag, the new \<^verbatim>\<open>*self\<close> and the
  new \<^verbatim>\<open>*other\<close>.\<close>

definition replace_contr_index ::
  "(idx \<Rightarrow> idx \<Rightarrow> bool) \<Rightarrow> (idx \<Rightarrow> idx \<Rightarrow> atom option) \<Rightarrow> ex \<Rightarrow> ex \<Rightarrow> (bool \<times> ex \<times> ex) option" where
  "replace_contr_index dp md self other =
     (case indices self of
        [i1, i2] \<Rightarrow>
          (case replace_contr_index_pass dp md i1 i2 self other of
             Some r \<Rightarrow> Some r
           | None \<Rightarrow>
               (case replace_contr_index_pass dp md i2 i1 self other of
                  Some r \<Rightarrow> Some r
                | None \<Rightarrow> Some (False, self, other)))
      | _ \<Rightarrow> None)"



text \<open>The first part of \<^verbatim>\<open>spinmetric::contract_with\<close>: contractions between two spinor
  metrics. \<open>None\<close>: no sub-case applies and control falls through.\<close>

definition spinmetric_pair ::
  "(idx \<Rightarrow> idx \<Rightarrow> bool) \<Rightarrow> idx \<Rightarrow> idx \<Rightarrow> idx \<Rightarrow> idx \<Rightarrow> (bool \<times> ex \<times> ex) option" where
  "spinmetric_pair dp self_i1 self_i2 other_i1 other_i2 =
     (if dp self_i1 other_i1 then
        Some (True, (if dp self_i2 other_i2 then ex2 else delta_tensor self_i2 other_i2), ex1)
      else if dp self_i1 other_i2 then
        Some (True, (if dp self_i2 other_i1 then ex_2 else Neg (delta_tensor self_i2 other_i1)), ex1)
      else if dp self_i2 other_i1 then
        Some (True, Neg (delta_tensor self_i1 other_i2), ex1)
      else if dp self_i2 other_i2 then
        Some (True, delta_tensor self_i1 other_i1, ex1)
      else None)"

text \<open>One pass through the block labelled \<^verbatim>\<open>again\<close> of \<^verbatim>\<open>spinmetric::contract_with\<close>.\<close>

definition spinmetric_pass ::
  "(idx \<Rightarrow> idx \<Rightarrow> bool) \<Rightarrow> idx \<Rightarrow> idx \<Rightarrow> int \<Rightarrow> ex \<Rightarrow> (bool \<times> ex \<times> ex) option" where
  "spinmetric_pass dp self_idx free_idx sign other =
     (if is_symbolic self_idx then
        (case find (dp self_idx) (indices other) of
           Some other_idx \<Rightarrow>
             Some (True,
                   Atom (Numeric (if is_covariant self_idx then sign else - sign)),
                   subs_idx other other_idx free_idx)
         | None \<Rightarrow> None)
      else None)"

definition spinmetric_contract_with ::
  "(idx \<Rightarrow> idx \<Rightarrow> bool) \<Rightarrow> ex \<Rightarrow> ex \<Rightarrow> (bool \<times> ex \<times> ex) option" where
  "spinmetric_contract_with dp self other =
     (case indices self of
        [self_i1, self_i2] \<Rightarrow>
          (let between =
                 (if op0 other = Some spinmetric then
                    (case indices other of
                       [other_i1, other_i2] \<Rightarrow> Some (spinmetric_pair dp self_i1 self_i2 other_i1 other_i2)
                     | _ \<Rightarrow> None)
                  else Some None)
           in case between of
                None \<Rightarrow> None
              | Some (Some r) \<Rightarrow> Some r
              | Some None \<Rightarrow>
                  if op0 other = Some tensdelta then Some (False, self, other)
                  else
                    (case spinmetric_pass dp self_i1 self_i2 1 other of
                       Some r \<Rightarrow> Some r
                     | None \<Rightarrow>
                         (case spinmetric_pass dp self_i2 self_i1 (- 1) other of
                            Some r \<Rightarrow> Some r
                          | None \<Rightarrow> Some (False, self, other))))
      | _ \<Rightarrow> None)"

subsection \<open>\<^verbatim>\<open>diracgamma::contract_with\<close>\<close>

text \<open>The first loop of the last branch: every factor strictly between \<^verbatim>\<open>self\<close> and
  \<^verbatim>\<open>other\<close> must be a \<^verbatim>\<open>clifford\<close> object. The iterator runs from \<^verbatim>\<open>self + 1\<close> up to \<^verbatim>\<open>other\<close>.\<close>

function all_clifford_between :: "nat \<Rightarrow> nat \<Rightarrow> ex list \<Rightarrow> bool" where
  "all_clifford_between it other v =
     (if it < other then
        (if \<not> is_clifford (v ! it) then False else all_clifford_between (Suc it) other v)
      else True)"
  by pat_completeness auto
termination
  by (relation "measure (\<lambda>(it, other, v). other - it)") auto

text \<open>The second loop: \<^verbatim>\<open>S *= *it; *it++ = _ex1()\<close> while \<^verbatim>\<open>it != next_to_last\<close>; the iterator
  starts at \<^verbatim>\<open>self + 1\<close>, which is not beyond \<^verbatim>\<open>next_to_last\<close> in this branch.\<close>

function gather_S :: "nat \<Rightarrow> nat \<Rightarrow> ex \<Rightarrow> ex list \<Rightarrow> ex \<times> ex list" where
  "gather_S it next_to_last S v =
     (if it < next_to_last then gather_S (Suc it) next_to_last (Mul S (v ! it)) (v[it := ex1])
      else (S, v))"
  by pat_completeness auto
termination
  by (relation "measure (\<lambda>(it, next_to_last, S, v). next_to_last - it)") auto

text \<open>
  \<^verbatim>\<open>diracgamma::contract_with(self, other, v)\<close>: the returned flag and the vector after the
  call. \<^verbatim>\<open>self\<close> and \<^verbatim>\<open>other\<close> are positions of \<open>v\<close> with \<^verbatim>\<open>self\<close> before \<^verbatim>\<open>other\<close>, and \<^verbatim>\<open>*self\<close>
  is a \<^verbatim>\<open>clifford\<close> object with an index (the \<^verbatim>\<open>GINAC_ASSERT\<close>s); \<open>None\<close> outside that, and
  where an index of a factor without one is read or \<^verbatim>\<open>lorentz_g\<close> throws. \<^verbatim>\<open>lorentz_g\<close> is called
  with two arguments; its third parameter has the default \<^verbatim>\<open>false\<close>.
\<close>

definition diracgamma_contract_with :: "ex list \<Rightarrow> nat \<Rightarrow> nat \<Rightarrow> (bool \<times> ex list) option" where
  "diracgamma_contract_with v self other =
     (if \<not> (self < other \<and> other < length v) then None
      else
        (case v ! self of
           Clifford b0 ixs0 rl \<Rightarrow>
             if is_clifford (v ! other) then
               (case op_idx (v ! self) 1 of
                  None \<Rightarrow> None
                | Some mu \<Rightarrow>
                    (let dim = Atom (get_dim mu) in
                     if other - self = 1 then
                       Some (True, v[self := dim, other := dirac_ONE rl])
                     else if other - self = 2 \<and> is_clifford (v ! (self + 1)) then
                       Some (True, v[self := Sub (Atom (Numeric 2)) dim, other := ex1])
                     else if other - self = 3 \<and> is_clifford (v ! (self + 1))
                              \<and> is_clifford (v ! (self + 2)) then
                       (case (op_idx (v ! (self + 1)) 1, op_idx (v ! (self + 2)) 1) of
                          (Some a, Some b) \<Rightarrow>
                            (case lorentz_g a b False of
                               None \<Rightarrow> None
                             | Some g \<Rightarrow>
                                 Some (True,
                                   v[self := Add (Mul (Mul (Atom (Numeric 4)) g) (dirac_ONE rl))
                                                 (Mul (Mul (Sub dim (Atom (Numeric 4))) (v ! (self + 1)))
                                                      (v ! (self + 2))),
                                     self + 1 := ex1,
                                     self + 2 := ex1,
                                     other := ex1]))
                        | _ \<Rightarrow> None)
                     else if \<not> all_clifford_between (self + 1) other v then Some (False, v)
                     else
                       (let next_to_last = other - 1;
                            (S, v1) = gather_S (self + 1) next_to_last ex1 v
                        in Some (True,
                             v1[self := Sub (Mul (Mul (Atom (Numeric 2)) (v1 ! next_to_last)) S)
                                            (Mul (Mul (Mul (v1 ! self) S) (v1 ! other)) (v1 ! next_to_last)),
                                next_to_last := ex1,
                                other := ex1]))))
             else Some (False, v)
         | _ \<Rightarrow> None))"



subsection \<open>The rules on a flat factor sequence\<close>







section \<open>The Clifford word normalizer (clifford.cpp, \<^verbatim>\<open>clifford::simplify_ncmul\<close>)\<close>

text \<open>
  The state of the function is the vector \<^verbatim>\<open>s\<close>, the \<^verbatim>\<open>sign\<close> and the flag
  \<^verbatim>\<open>something_changed\<close>. One test of the inner loop of the \<^verbatim>\<open>gamma5\<close> sweep, at position
  \<^verbatim>\<open>it\<close> (with \<^verbatim>\<open>it2 = it + 1\<close>):
\<close>

definition sweep_step :: "nat \<Rightarrow> ex list \<times> int \<times> bool \<Rightarrow> ex list \<times> int \<times> bool" where
  "sweep_step it st =
     (case st of
        (s, sign, something_changed) \<Rightarrow>
          if op0 (s ! it) \<noteq> Some diracgamma5 \<and> op0 (s ! (it + 1)) = Some diracgamma5
          then (s[it := s ! (it + 1), it + 1 := s ! it], - sign, True)
          else st)"

text \<open>The inner loop runs \<^verbatim>\<open>it\<close> from \<^verbatim>\<open>next_to_last\<close> down to \<^verbatim>\<open>first\<close>; the outer loop
  runs \<^verbatim>\<open>next_to_last\<close> from \<^verbatim>\<open>s.end() - 2\<close> down to \<^verbatim>\<open>first\<close>. Both test before they leave.\<close>

fun inner_sweep :: "nat \<Rightarrow> ex list \<times> int \<times> bool \<Rightarrow> ex list \<times> int \<times> bool" where
  "inner_sweep 0 st = sweep_step 0 st"
| "inner_sweep (Suc it) st = inner_sweep it (sweep_step (Suc it) st)"

fun outer_sweep :: "nat \<Rightarrow> ex list \<times> int \<times> bool \<Rightarrow> ex list \<times> int \<times> bool" where
  "outer_sweep 0 st = inner_sweep 0 st"
| "outer_sweep (Suc next_to_last) st = outer_sweep next_to_last (inner_sweep (Suc next_to_last) st)"

text \<open>\<^verbatim>\<open>while (s.size() >= 2 && s[0] is gamma5 && s[1] is gamma5) erase the two\<close>.\<close>

fun remove_squares :: "ex list \<Rightarrow> bool \<Rightarrow> ex list \<times> bool" where
  "remove_squares (a # b # rest) something_changed =
     (if op0 a = Some diracgamma5 \<and> op0 b = Some diracgamma5 then remove_squares rest True
      else (a # b # rest, something_changed))"
| "remove_squares s something_changed = (s, something_changed)"

text \<open>The loop over adjacent pairs, \<^verbatim>\<open>it\<close> from \<^verbatim>\<open>s.begin()\<close> up to \<^verbatim>\<open>s.end() - 1\<close>. \<open>None\<close>
  where an index of a gamma that has none is read, or \<^verbatim>\<open>lorentz_g\<close> throws.\<close>

function adjacent_gammas :: "8 word \<Rightarrow> nat \<Rightarrow> nat \<Rightarrow> ex list \<times> bool \<Rightarrow> (ex list \<times> bool) option" where
  "adjacent_gammas rl it itend st =
     (if it < itend then
        (case st of
           (s, something_changed) \<Rightarrow>
             (let a = s ! it; b = s ! (it + 1) in
              if op0 a = Some diracgamma \<and> op0 b = Some diracgamma then
                (case (op_idx a 1, op_idx b 1) of
                   (Some ia, Some ib) \<Rightarrow>
                     if ia = ib then
                       (case lorentz_g ia ib False of
                          None \<Rightarrow> None
                        | Some g \<Rightarrow>
                            adjacent_gammas rl (Suc it) itend (s[it := g, it + 1 := dirac_ONE rl], True))
                     else adjacent_gammas rl (Suc it) itend st
                 | _ \<Rightarrow> None)
              else adjacent_gammas rl (Suc it) itend st))
      else Some st)"
  by pat_completeness auto
termination
  by (relation "measure (\<lambda>(rl, it, itend, st). itend - it)") auto

text \<open>The three \<^verbatim>\<open>return\<close> statements: \<^verbatim>\<open>clifford(diracone(), rl) * sign\<close>,
  \<^verbatim>\<open>nonsimplified_ncmul(s) * sign\<close> and \<^verbatim>\<open>simplified_ncmul(s) * sign\<close>.\<close>

datatype ncmul_result =
    ONE_times int
  | nonsimplified_ncmul_times "ex list" int
  | simplified_ncmul_times "ex list" int

text \<open>\<^verbatim>\<open>clifford::simplify_ncmul(v)\<close>, a member function of the first factor, whose
  representation label it uses.\<close>

definition simplify_ncmul :: "8 word \<Rightarrow> ex list \<Rightarrow> ncmul_result option" where
  "simplify_ncmul representation_label v =
     (let s = filter (\<lambda>e. op0 e \<noteq> Some diracone) v;
          (s1, sign, changed1) =
             (if 2 \<le> length s then outer_sweep (length s - 2) (s, 1, False) else (s, 1, False));
          (s2, changed2) = remove_squares s1 changed1
      in case (if 2 \<le> length s2
               then adjacent_gammas representation_label 0 (length s2 - 1) (s2, changed2)
               else Some (s2, changed2)) of
           None \<Rightarrow> None
         | Some (s3, something_changed) \<Rightarrow>
             if length s3 = 0 then Some (ONE_times sign)
             else if something_changed then Some (nonsimplified_ncmul_times s3 sign)
             else Some (simplified_ncmul_times s3 sign))"

text \<open>
  Modelled from the spec: the re-entry through \<^verbatim>\<open>nonsimplified_ncmul\<close> (ncmul.cpp) is not part
  of \<^verbatim>\<open>src/\<close>. Section 4.6 of the spec: if any rule fired, re-run the whole normalizer on the
  result; otherwise return the word, multiplied by the accumulated sign. Factors that are
  not \<^verbatim>\<open>clifford\<close> objects (the metric tensors the fourth rule puts in) are commutative and
  leave the word; a word of one factor is that factor. The result is the accumulated sign,
  the commutative factors and the normal word; \<open>None\<close> when the fuel runs out.
\<close>

fun normal_form :: "nat \<Rightarrow> 8 word \<Rightarrow> int \<Rightarrow> ex list \<Rightarrow> ex list \<Rightarrow> (int \<times> ex list \<times> ex list) option" where
  "normal_form 0 rl sign scalars w = None"
| "normal_form (Suc fuel) rl sign scalars w =
     (case simplify_ncmul rl w of
        None \<Rightarrow> None
      | Some (ONE_times sg) \<Rightarrow> Some (sign * sg, scalars, [dirac_ONE rl])
      | Some (simplified_ncmul_times s sg) \<Rightarrow> Some (sign * sg, scalars, s)
      | Some (nonsimplified_ncmul_times s sg) \<Rightarrow>
          (let sc = filter (\<lambda>e. \<not> is_clifford e) s;
               w' = filter is_clifford s
           in if length w' \<le> 1 then Some (sign * sg, scalars @ sc, w')
              else normal_form fuel rl (sign * sg) (scalars @ sc) w'))"

text \<open>A word on which no rule of the normalizer fires: no \<^verbatim>\<open>ONE\<close> factor, no \<^verbatim>\<open>gamma5\<close>
  right after a factor that is not \<^verbatim>\<open>gamma5\<close>, no two leading \<^verbatim>\<open>gamma5\<close>, no two adjacent
  gammas with equal indices. Its factors are \<^verbatim>\<open>clifford\<close> objects, a gamma with its index.\<close>

fun no_adjacent :: "(ex \<Rightarrow> ex \<Rightarrow> bool) \<Rightarrow> ex list \<Rightarrow> bool" where
  "no_adjacent P (a # b # rest) = (\<not> P a b \<and> no_adjacent P (b # rest))"
| "no_adjacent P s = True"

fun clifford_factor :: "ex \<Rightarrow> bool" where
  "clifford_factor (Clifford b ixs rl) =
     (if b = diracgamma then length ixs = 1 else b = diracone \<or> b = diracgamma5)"
| "clifford_factor e = False"

definition gamma5_after_other :: "ex \<Rightarrow> ex \<Rightarrow> bool" where
  "gamma5_after_other a b = (op0 a \<noteq> Some diracgamma5 \<and> op0 b = Some diracgamma5)"

definition both_gamma5 :: "ex \<Rightarrow> ex \<Rightarrow> bool" where
  "both_gamma5 a b = (op0 a = Some diracgamma5 \<and> op0 b = Some diracgamma5)"

definition equal_gammas :: "ex \<Rightarrow> ex \<Rightarrow> bool" where
  "equal_gammas a b =
     (op0 a = Some diracgamma \<and> op0 b = Some diracgamma \<and> op_idx a 1 = op_idx b 1)"

definition normal_word :: "ex list \<Rightarrow> bool" where
  "normal_word v =
     (list_all clifford_factor v
      \<and> list_all (\<lambda>e. op0 e \<noteq> Some diracone) v
      \<and> no_adjacent gamma5_after_other v
      \<and> no_adjacent both_gamma5 (take 2 v)
      \<and> no_adjacent equal_gammas v)"

section \<open>The canonical orderer (clifford.cpp, \<^verbatim>\<open>canonicalize_clifford\<close>)\<close>

text \<open>
  The bubble scan over a word: \<^verbatim>\<open>it\<close> runs up to \<^verbatim>\<open>next_to_last\<close> and stops at the first
  position whose index compares greater than the next one. \<open>Some None\<close>: the loop ends
  without a swap; \<open>Some (Some it)\<close>: a swap at \<^verbatim>\<open>it\<close>; \<open>None\<close>: an index of a factor that has
  none is read. The order \<^verbatim>\<open>compare\<close> on indices (basic.cpp) is a parameter \<open>cmp\<close>.
\<close>

function find_swap :: "(idx \<Rightarrow> idx \<Rightarrow> int) \<Rightarrow> nat \<Rightarrow> nat \<Rightarrow> ex list \<Rightarrow> nat option option" where
  "find_swap cmp it next_to_last v =
     (if it < next_to_last then
        (case (op_idx (v ! it) 1, op_idx (v ! (it + 1)) 1) of
           (Some i0, Some i1) \<Rightarrow>
             if cmp i0 i1 > 0 then Some (Some it) else find_swap cmp (Suc it) next_to_last v
         | _ \<Rightarrow> None)
      else Some None)"
  by pat_completeness auto
termination
  by (relation "measure (\<lambda>(cmp, it, next_to_last, v). next_to_last - it)") auto

fun is_ncmul :: "ex \<Rightarrow> bool" where
  "is_ncmul (Ncmul v) = True"
| "is_ncmul e = False"

text \<open>
  \<^verbatim>\<open>canonicalize_clifford(e)\<close>. \<^verbatim>\<open>to_rational\<close> replaces every sub-expression that is not a
  sum or product by a symbol and records it in \<^verbatim>\<open>srl\<close>; the loop rewrites the recorded
  \<^verbatim>\<open>ncmul\<close> words and \<^verbatim>\<open>subs\<close> puts them back: the model maps over the sums and products of
  the tree. \<^verbatim>\<open>expand\<close> and the evaluating \<^verbatim>\<open>ncmul\<close> constructor (ncmul.cpp, not part of
  \<^verbatim>\<open>src/\<close>) are parameters \<open>expand_ex\<close> and \<open>ncmul_ctor\<close>. The function calls itself on the
  rewritten sum; the model takes fuel for these calls and returns \<open>None\<close> when it runs
  out (or where an index that is not there is read). On a word that is a lone \<^verbatim>\<open>gamma5\<close>
  (no evaluated \<^verbatim>\<open>ncmul\<close> has fewer than two factors) the \<^verbatim>\<open>it++\<close> would step past
  \<^verbatim>\<open>next_to_last\<close> and the loop would leave the vector; \<open>None\<close> there too.
\<close>

fun canonicalize_clifford ::
  "(ex \<Rightarrow> ex) \<Rightarrow> (ex list \<Rightarrow> ex) \<Rightarrow> (idx \<Rightarrow> idx \<Rightarrow> int) \<Rightarrow> nat \<Rightarrow> ex \<Rightarrow> ex option" where
  "canonicalize_clifford expand_ex ncmul_ctor cmp fuel (Add a b) =
     (case canonicalize_clifford expand_ex ncmul_ctor cmp fuel a of
        None \<Rightarrow> None
      | Some a' \<Rightarrow>
          (case canonicalize_clifford expand_ex ncmul_ctor cmp fuel b of
             None \<Rightarrow> None
           | Some b' \<Rightarrow> Some (Add a' b')))"
| "canonicalize_clifford expand_ex ncmul_ctor cmp fuel (Sub a b) =
     (case canonicalize_clifford expand_ex ncmul_ctor cmp fuel a of
        None \<Rightarrow> None
      | Some a' \<Rightarrow>
          (case canonicalize_clifford expand_ex ncmul_ctor cmp fuel b of
             None \<Rightarrow> None
           | Some b' \<Rightarrow> Some (Sub a' b')))"
| "canonicalize_clifford expand_ex ncmul_ctor cmp fuel (Mul a b) =
     (case canonicalize_clifford expand_ex ncmul_ctor cmp fuel a of
        None \<Rightarrow> None
      | Some a' \<Rightarrow>
          (case canonicalize_clifford expand_ex ncmul_ctor cmp fuel b of
             None \<Rightarrow> None
           | Some b' \<Rightarrow> Some (Mul a' b')))"
| "canonicalize_clifford expand_ex ncmul_ctor cmp fuel (Neg a) =
     (case canonicalize_clifford expand_ex ncmul_ctor cmp fuel a of
        None \<Rightarrow> None
      | Some a' \<Rightarrow> Some (Neg a'))"
| "canonicalize_clifford expand_ex ncmul_ctor cmp fuel (Ncmul v) =
     (if \<not> is_clifford_tinfo_any (return_type_tinfo (Ncmul v)) then Some (Ncmul v)
      else
        (let rhs_expanded = expand_ex (Ncmul v) in
         if \<not> is_ncmul rhs_expanded then
           (case fuel of
              0 \<Rightarrow> None
            | Suc n \<Rightarrow> canonicalize_clifford expand_ex ncmul_ctor cmp n rhs_expanded)
         else if \<not> is_clifford (v ! 0) then Some (Ncmul v)
         else
           (let start = (if op0 (v ! 0) = Some diracgamma5 then 1 else 0) in
            if length v - 1 < start then None
            else
            case find_swap cmp start (length v - 1) v of
              None \<Rightarrow> None
            | Some None \<Rightarrow> Some (Ncmul v)
            | Some (Some it) \<Rightarrow>
                (case (op_idx (v ! it) 1, op_idx (v ! (it + 1)) 1) of
                   (Some i0, Some i1) \<Rightarrow>
                     (case lorentz_g i0 i1 False of
                        None \<Rightarrow> None
                      | Some g \<Rightarrow>
                          (let sum = Sub (ncmul_ctor (v[it := g, it + 1 := ex2]))
                                         (ncmul_ctor (v[it := v ! (it + 1), it + 1 := v ! it]))
                           in case fuel of
                                0 \<Rightarrow> None
                              | Suc n \<Rightarrow> canonicalize_clifford expand_ex ncmul_ctor cmp n sum))
                 | _ \<Rightarrow> None))))"
| "canonicalize_clifford expand_ex ncmul_ctor cmp fuel e = Some e"

text \<open>An expression whose Clifford words are already sorted by index order: in every word
  that \<^verbatim>\<open>canonicalize_clifford\<close> looks at, the factors after an optional leading \<^verbatim>\<open>gamma5\<close>
  carry indices that do not compare greater than their right neighbours (a leading
  \<^verbatim>\<open>gamma5\<close> is followed by at least one factor), and there is nothing to expand.\<close>

fun indices_sorted :: "(idx \<Rightarrow> idx \<Rightarrow> int) \<Rightarrow> ex list \<Rightarrow> bool" where
  "indices_sorted cmp (a # b # rest) =
     (case (op_idx a 1, op_idx b 1) of
        (Some i0, Some i1) \<Rightarrow> cmp i0 i1 \<le> 0 \<and> indices_sorted cmp (b # rest)
      | _ \<Rightarrow> False)"
| "indices_sorted cmp s = True"

definition sorted_word :: "(idx \<Rightarrow> idx \<Rightarrow> int) \<Rightarrow> ex list \<Rightarrow> bool" where
  "sorted_word cmp v =
     (if v \<noteq> [] \<and> op0 (v ! 0) = Some diracgamma5
      then 2 \<le> length v \<and> indices_sorted cmp (drop 1 v)
      else indices_sorted cmp v)"

fun words_sorted :: "(ex \<Rightarrow> ex) \<Rightarrow> (idx \<Rightarrow> idx \<Rightarrow> int) \<Rightarrow> ex \<Rightarrow> bool" where
  "words_sorted expand_ex cmp (Add a b) = (words_sorted expand_ex cmp a \<and> words_sorted expand_ex cmp b)"
| "words_sorted expand_ex cmp (Sub a b) = (words_sorted expand_ex cmp a \<and> words_sorted expand_ex cmp b)"
| "words_sorted expand_ex cmp (Mul a b) = (words_sorted expand_ex cmp a \<and> words_sorted expand_ex cmp b)"
| "words_sorted expand_ex cmp (Neg a) = words_sorted expand_ex cmp a"
| "words_sorted expand_ex cmp (Ncmul v) =
     (if is_clifford_tinfo_any (return_type_tinfo (Ncmul v))
      then expand_ex (Ncmul v) = Ncmul v \<and> sorted_word cmp v
      else True)"
| "words_sorted expand_ex cmp e = True"

section \<open>Sample data\<close>

text \<open>A symbolic Lorentz index of symbolic dimension \<open>D\<close>, and the word
  \<^verbatim>\<open>dirac_gamma(mu1, rl) * dirac_gamma(mu2, rl) * ...\<close> for a list of index names.\<close>

definition sym_varidx :: "string \<Rightarrow> bool \<Rightarrow> idx" where
  "sym_varidx s cov = Idx (Symbol s) (Symbol ''D'') (c_varidx cov)"

definition gamma_word :: "8 word \<Rightarrow> string list \<Rightarrow> ex list" where
  "gamma_word rl names = map (\<lambda>s. Clifford diracgamma [sym_varidx s False] rl) names"

text \<open>A sample integer-valued metric: 1 on equal index names, 0 otherwise.\<close>

definition sample_metric :: "idx \<Rightarrow> idx \<Rightarrow> int" where
  "sample_metric i j = (if get_value i = get_value j then 1 else 0)"

definition sample_eps :: "idx \<Rightarrow> idx \<Rightarrow> idx \<Rightarrow> idx \<Rightarrow> int" where
  "sample_eps i j k l = (if distinct [get_value i, get_value j, get_value k, get_value l] then 1 else 0)"

text \<open>A dummy-pair test as the data model of the spec describes it (section 3): same
  identity, opposite variance; and a variant for indices without variance. A numeric Lorentz
  index of dimension 4.\<close>

definition sample_dummy_pair :: "idx \<Rightarrow> idx \<Rightarrow> bool" where
  "sample_dummy_pair i j =
     (get_value i = get_value j \<and> is_varidx i \<and> is_varidx j \<and> is_covariant i \<noteq> is_covariant j)"

definition num_varidx :: "int \<Rightarrow> bool \<Rightarrow> idx" where
  "num_varidx n cov = Idx (Numeric n) (Numeric 4) (c_varidx cov)"

text \<open>A minimal-dimension function that fails on two different symbolic dimensions, and the
  word \<^verbatim>\<open>gamma~mu gamma~a1 ... gamma~an gamma.mu\<close> with a contracted pair around \<open>n\<close> factors.\<close>

definition sample_minimal_dim :: "idx \<Rightarrow> idx \<Rightarrow> atom option" where
  "sample_minimal_dim i j =
     (if get_dim i = get_dim j then Some (get_dim i)
      else (case (get_dim i, get_dim j) of
              (Numeric a, Numeric b) \<Rightarrow> Some (Numeric (min a b))
            | _ \<Rightarrow> None))"

definition contracted_word :: "string list \<Rightarrow> ex list" where
  "contracted_word names =
     Clifford diracgamma [sym_varidx ''mu'' False] 0
       # gamma_word 0 names @ [Clifford diracgamma [sym_varidx ''mu'' True] 0]"

text \<open>A sample order on indices (by numeric value), and \<^verbatim>\<open>dirac_gamma\<close> of a numeric index.\<close>

definition sample_compare :: "idx \<Rightarrow> idx \<Rightarrow> int" where
  "sample_compare i j =
     (case (get_value i, get_value j) of
        (Numeric a, Numeric b) \<Rightarrow> (if a < b then - 1 else if a = b then 0 else 1)
      | _ \<Rightarrow> 0)"

definition num_gamma :: "int \<Rightarrow> ex" where
  "num_gamma n = Clifford diracgamma [num_varidx n False] 0"

section \<open>Properties of the trace engine\<close>

declare trace_string.simps [simp del]
declare trace_expansion.simps [simp del]

lemma upt_split: "a \<le> i \<Longrightarrow> i < N \<Longrightarrow> [a..<N] = [a..<i] @ i # [Suc i..<N]"
proof -
  assume a: "a \<le> i" "i < N"
  have "[a..<i + (N - i)] = [a..<i] @ [i..<i + (N - i)]"
    using a(1) by (rule upt_add_eq_append)
  moreover have "i + (N - i) = N" using a by simp
  ultimately have "[a..<N] = [a..<i] @ [i..<N]" by simp
  then show ?thesis using a(2) by (simp add: upt_conv_Cons)
qed

lemma filter_skip: "Suc 0 \<le> i \<Longrightarrow> i < N \<Longrightarrow> filter (\<lambda>n. n \<noteq> i) [Suc 0..<N] = [Suc 0..<i] @ [Suc i..<N]"
proof -
  assume a: "Suc 0 \<le> i" "i < N"
  have "[Suc 0..<N] = [Suc 0..<i] @ i # [Suc i..<N]"
    using a by (rule upt_split)
  then show ?thesis by (simp add: filter_id_conv filter_empty_conv)
qed

lemma length_skip: "Suc 0 \<le> i \<Longrightarrow> i < N \<Longrightarrow> length (filter (\<lambda>n. n \<noteq> i) [Suc 0..<N]) = N - 2"
  by (simp add: filter_skip)

lemma filter_spec_code:
  "0 < N \<Longrightarrow> filter (\<lambda>n. 0 < n \<and> n \<noteq> i) [0..<N] = filter (\<lambda>n. n \<noteq> i) [Suc 0..<N]"
proof -
  assume "0 < N"
  then have "[0..<N] = 0 # [Suc 0..<N]" by (simp add: upt_rec [of 0])
  moreover have "filter (\<lambda>n. 0 < n \<and> n \<noteq> i) [Suc 0..<N] = filter (\<lambda>n. n \<noteq> i) [Suc 0..<N]"
    by (rule filter_cong) auto
  ultimately show ?thesis by simp
qed

lemma fold_sign:
  fixes c :: "nat \<Rightarrow> 'a::comm_ring_1"
  assumes "\<And>i. Suc 0 \<le> i \<Longrightarrow> i < n \<Longrightarrow> f i = Some (t i)"
  shows "Suc 0 \<le> n \<Longrightarrow> fold (\<lambda>i acc. case acc of None \<Rightarrow> None
            | Some (sign, result) \<Rightarrow> (case f i of None \<Rightarrow> None
                | Some u \<Rightarrow> Some (- sign, result + of_int sign * c i * u)))
          [Suc 0..<n] (Some (1::int, 0))
        = Some ((- 1) ^ (n - 1), \<Sum>i\<leftarrow>[Suc 0..<n]. (- 1) ^ Suc i * c i * t i)"
  using assms
proof (induction n)
  case 0 then show ?case by simp
next
  case (Suc n)
  show ?case
  proof (cases "n = 0")
    case True then show ?thesis by simp
  next
    case False
    then have n: "Suc 0 \<le> n" by simp
    have IH: "fold (\<lambda>i acc. case acc of None \<Rightarrow> None
            | Some (sign, result) \<Rightarrow> (case f i of None \<Rightarrow> None
                | Some u \<Rightarrow> Some (- sign, result + of_int sign * c i * u)))
          [Suc 0..<n] (Some (1::int, 0))
        = Some ((- 1) ^ (n - 1), \<Sum>i\<leftarrow>[Suc 0..<n]. (- 1) ^ Suc i * c i * t i)"
      using Suc.IH [OF n] Suc.prems by simp
    have fn: "f n = Some (t n)" using Suc.prems n by simp
    have sg: "(of_int ((- 1) ^ (n - Suc 0)) :: 'a) = (- 1) ^ Suc n"
      using n by (cases n) simp_all
    have sg2: "- ((- 1::int) ^ (n - Suc 0)) = (- 1) ^ n"
      using n by (cases n) simp_all
    show ?thesis
      using n by (simp add: IH fn sg sg2 del: power_Suc of_int_power)
  qed
qed


lemma trace_expansion2: "trace_expansion g [a, b] = g a b"
  by (simp add: trace_expansion.simps [of g "[a, b]"])

lemma trace_expansion4:
  "trace_expansion g [a, b, c, d] = g a b * g c d - g a c * g b d + g a d * g b c"
  by (simp add: trace_expansion.simps [of g "[a, b, c, d]"] trace_expansion2
        upt_rec [of 0] upt_rec [of 1] upt_rec [of 2] upt_rec [of 3] upt_rec [of 4] upt_rec [of 5] upt_rec [of "Suc 0"] eval_nat_numeral)

lemma trace_string2: "trace_string g [a, b] = Some (g a b)"
  by (simp add: trace_string.simps [of g "[a, b]"])

lemma trace_string4:
  "trace_string g [a, b, c, d] = Some (g a b * g c d + g b c * g a d - g a c * g b d)"
  by (simp add: trace_string.simps [of g "[a, b, c, d]"])

lemma list4: "length xs = 4 \<Longrightarrow> xs = [xs ! 0, xs ! 1, xs ! 2, xs ! 3]"
  by (cases xs; simp; cases "tl xs"; simp; cases "tl (tl xs)"; simp; cases "tl (tl (tl xs))"; simp)

lemma list2: "length xs = 2 \<Longrightarrow> xs = [xs ! 0, xs ! 1]"
  by (cases xs; simp; cases "tl xs"; simp)

lemma trace_string_expansion:
  "even (length ix) \<Longrightarrow> 2 \<le> length ix \<Longrightarrow> trace_string g ix = Some (trace_expansion g ix)"
proof (induction ix rule: length_induct)
  case (1 ix)
  let ?N = "length ix"
  have "?N = 2 \<or> ?N = 4 \<or> 6 \<le> ?N" using "1.prems" by presburger
  then consider "?N = 2" | "?N = 4" | "6 \<le> ?N" by blast
  then show ?case
  proof cases
    case 1
    then have "ix = [ix ! 0, ix ! 1]" by (rule list2)
    then obtain a b where "ix = [a, b]" by blast
    then show ?thesis by (simp add: trace_string2 trace_expansion2)
  next
    case 2
    then have "ix = [ix ! 0, ix ! 1, ix ! 2, ix ! 3]" by (rule list4)
    then obtain a b c d where "ix = [a, b, c, d]" by blast
    then show ?thesis by (simp add: trace_string4 trace_expansion4 algebra_simps)
  next
    case 3
    have rec: "trace_string g (map ((!) ix) (filter (\<lambda>n. n \<noteq> i) [Suc 0..<?N]))
          = Some (trace_expansion g (map ((!) ix) (filter (\<lambda>n. n \<noteq> i) [Suc 0..<?N])))"
      if "Suc 0 \<le> i" "i < ?N" for i
    proof -
      have len: "length (map ((!) ix) (filter (\<lambda>n. n \<noteq> i) [Suc 0..<?N])) = ?N - 2"
        using that by (simp add: length_skip)
      show ?thesis
        using "1.IH" "1.prems" 3 len by simp
    qed
    have "trace_string g ix = map_option snd (Some ((- 1) ^ (?N - 1),
        \<Sum>i\<leftarrow>[Suc 0..<?N]. (- 1) ^ Suc i * g (ix ! 0) (ix ! i)
            * trace_expansion g (map ((!) ix) (filter (\<lambda>n. n \<noteq> i) [Suc 0..<?N]))))"
      using 3 fold_sign [of ?N "\<lambda>i. trace_string g (map ((!) ix) (filter (\<lambda>n. n \<noteq> i) [Suc 0..<?N]))"
           "\<lambda>i. trace_expansion g (map ((!) ix) (filter (\<lambda>n. n \<noteq> i) [Suc 0..<?N]))" "\<lambda>i. g (ix ! 0) (ix ! i)", OF rec]
      by (simp add: trace_string.simps [of g ix] Let_def)
    moreover have "trace_expansion g ix = (\<Sum>i\<leftarrow>[Suc 0..<?N]. (- 1) ^ Suc i * g (ix ! 0) (ix ! i)
            * trace_expansion g (map ((!) ix) (filter (\<lambda>n. n \<noteq> i) [Suc 0..<?N])))"
    proof -
      have "[2..<Suc ?N] = map Suc [Suc 0..<?N]"
        by (simp add: map_Suc_upt eval_nat_numeral)
      moreover have "ix \<noteq> []" using 3 by auto
      ultimately show ?thesis
        using 3 by (simp add: trace_expansion.simps [of g ix] Let_def filter_spec_code comp_def del: upt_Suc)
    qed
    ultimately show ?thesis by simp
  qed
qed

lemma plain_gamma_cases: "plain_gamma rl e \<Longrightarrow> \<exists>mu. e = Clifford diracgamma [mu] rl"
  by (cases e; simp; cases "indices e"; simp)

lemma those_plain:
  "list_all (plain_gamma rl) w \<Longrightarrow> those (map (\<lambda>e. op_idx e (Suc 0)) w) = Some (concat (map indices w))"
proof (induction w)
  case Nil then show ?case by simp
next
  case (Cons e w)
  then obtain mu where "e = Clifford diracgamma [mu] rl" using plain_gamma_cases by auto
  with Cons show ?case by (simp add: op_idx_def)
qed

lemma those_nth_plain:
  "list_all (plain_gamma rl) w \<Longrightarrow>
     those (map (\<lambda>i. op_idx (w ! i) (Suc 0)) [0..<length w]) = Some (concat (map indices w))"
proof -
  assume a: "list_all (plain_gamma rl) w"
  have "map (\<lambda>i. op_idx (w ! i) (Suc 0)) [0..<length w] = map (\<lambda>e. op_idx e (Suc 0)) w"
    by (rule nth_equalityI) simp_all
  with a those_plain [of rl w] show ?thesis by simp
qed

lemma length_concat_plain:
  "list_all (plain_gamma rl) w \<Longrightarrow> length (concat (map indices w)) = length w"
proof (induction w)
  case Nil then show ?case by simp
next
  case (Cons e w)
  then obtain mu where "e = Clifford diracgamma [mu] rl" using plain_gamma_cases by auto
  with Cons show ?case by simp
qed

lemma plain_word_tinfo:
  "list_all (plain_gamma rl) w \<Longrightarrow> w \<noteq> [] \<Longrightarrow>
     is_clifford_tinfo (return_type_tinfo (Ncmul w)) rl \<and> op0 (w ! 0) = Some diracgamma"
proof -
  assume a: "list_all (plain_gamma rl) w" "w \<noteq> []"
  then obtain e w' where w: "w = e # w'" by (cases w) auto
  with a obtain mu where "e = Clifford diracgamma [mu] rl" using plain_gamma_cases by auto
  with w show ?thesis by (simp add: is_clifford_tinfo_def)
qed

lemma dirac_trace_plain_word:
  assumes a: "list_all (plain_gamma rl) w" "even (length w)" "4 \<le> length w"
  shows "dirac_trace g eps I (Ncmul w) rl trONE
           = Some (trONE * trace_expansion g (concat (map indices w)))"
proof -
  from a have ne: "w \<noteq> []" by auto
  have ti: "is_clifford_tinfo (return_type_tinfo (Ncmul w)) rl" "op0 (w ! 0) = Some diracgamma"
    using plain_word_tinfo a ne by blast+
  have th: "those (map (\<lambda>i. op_idx (w ! i) (Suc 0)) [0..<length w]) = Some (concat (map indices w))"
    using a those_nth_plain [of rl w] by simp
  have len: "length (concat (map indices w)) = length w"
    using a length_concat_plain [of rl w] by simp
  have "trace_string g (concat (map indices w)) = Some (trace_expansion g (concat (map indices w)))"
    using a len by (simp add: trace_string_expansion)
  then show ?thesis
    using a ti th by (simp add: dirac_trace_def Let_def)
qed

text \<open>
  Claim C1. For a word of an even number \<open>N \<ge> 4\<close> of plain Gamma factors of the traced
  representation label, \<^verbatim>\<open>dirac_trace(word, rl, trONE)\<close> is \<^verbatim>\<open>trONE\<close> times the recursive
  expansion of the spec over the indices of the word; for four factors it is
  \<open>trONE * (g(mu,nu) g(rho,sig) + g(nu,rho) g(mu,sig) - g(mu,rho) g(nu,sig))\<close>. The C++ has a
  closed form for four indices and accumulates the longer sums with a sign variable; the
  equality with the spec's recursion holds in every commutative ring.
\<close>

theorem dirac_trace_expansion:
  "(list_all (plain_gamma rl) w \<and> even (length w) \<and> 4 \<le> length w \<longrightarrow>
      dirac_trace g eps I (Ncmul w) rl trONE
        = Some (trONE * trace_expansion g (concat (map indices w))))
   \<and> dirac_trace g eps I
        (Ncmul [Clifford diracgamma [mu] rl, Clifford diracgamma [nu] rl,
                Clifford diracgamma [rho] rl, Clifford diracgamma [sig] rl]) rl trONE
        = Some (trONE * (g mu nu * g rho sig + g nu rho * g mu sig - g mu rho * g nu sig))"
proof (intro conjI impI)
  assume "list_all (plain_gamma rl) w \<and> even (length w) \<and> 4 \<le> length w"
  then show "dirac_trace g eps I (Ncmul w) rl trONE
        = Some (trONE * trace_expansion g (concat (map indices w)))"
    by (simp add: dirac_trace_plain_word)
next
  let ?w = "[Clifford diracgamma [mu] rl, Clifford diracgamma [nu] rl,
             Clifford diracgamma [rho] rl, Clifford diracgamma [sig] rl]"
  have "dirac_trace g eps I (Ncmul ?w) rl trONE
          = Some (trONE * trace_expansion g (concat (map indices ?w)))"
    by (rule dirac_trace_plain_word) simp_all
  then show "dirac_trace g eps I (Ncmul ?w) rl trONE
        = Some (trONE * (g mu nu * g rho sig + g nu rho * g mu sig - g mu rho * g nu sig))"
    by (simp add: trace_expansion4 algebra_simps)
qed

theorem dirac_trace_expansion_witness:
  "list_all (plain_gamma 0) (gamma_word 0 [''a'', ''b'', ''c'', ''d'', ''e'', ''f''])
   \<and> even (length (gamma_word 0 [''a'', ''b'', ''c'', ''d'', ''e'', ''f'']))
   \<and> 4 \<le> length (gamma_word 0 [''a'', ''b'', ''c'', ''d'', ''e'', ''f''])
   \<and> dirac_trace sample_metric sample_eps 0
         (Ncmul (gamma_word 0 [''a'', ''b'', ''c'', ''d'', ''e'', ''f''])) 0 4
       = Some (4 * trace_expansion sample_metric
           (concat (map indices (gamma_word 0 [''a'', ''b'', ''c'', ''d'', ''e'', ''f'']))))"
  using dirac_trace_expansion [of 0 "gamma_word 0 [''a'', ''b'', ''c'', ''d'', ''e'', ''f'']"
      sample_metric sample_eps 0 4]
  by (simp add: gamma_word_def)

text \<open>
  Claim C2. \<^verbatim>\<open>dirac_trace\<close> is 0 for every word of an odd number of plain Gamma factors of
  the traced representation label (a single factor is the \<^verbatim>\<open>clifford\<close> object itself), and
  for \<^verbatim>\<open>gamma5\<close> followed by such a word of odd length or of length 2, whatever the
  indices and their dimensions are.
\<close>

theorem dirac_trace_vanishing:
  "list_all (plain_gamma rl) w \<longrightarrow>
     (odd (length w) \<longrightarrow> dirac_trace g eps I (Ncmul w) rl trONE = Some 0)
   \<and> (odd (length w) \<or> length w = 2 \<longrightarrow>
        dirac_trace g eps I (Ncmul (dirac_gamma5 rl # w)) rl trONE = Some 0)
   \<and> (length w = 1 \<longrightarrow> dirac_trace g eps I (w ! 0) rl trONE = Some 0)"
proof (intro impI conjI)
  assume a: "list_all (plain_gamma rl) w" and o: "odd (length w)"
  then have ne: "w \<noteq> []" by auto
  have ti: "is_clifford_tinfo (return_type_tinfo (Ncmul w)) rl" "op0 (w ! 0) = Some diracgamma"
    using plain_word_tinfo a ne by blast+
  show "dirac_trace g eps I (Ncmul w) rl trONE = Some 0"
    using o ti by (simp add: dirac_trace_def Let_def)
next
  assume "odd (length w) \<or> length w = 2"
  then show "dirac_trace g eps I (Ncmul (dirac_gamma5 rl # w)) rl trONE = Some 0"
    by (auto simp add: dirac_trace_def Let_def dirac_gamma5_def is_clifford_tinfo_def)
next
  assume a: "list_all (plain_gamma rl) w" and l: "length w = 1"
  then obtain e where w: "w = [e]" by (cases w) auto
  with a obtain mu where "e = Clifford diracgamma [mu] rl" using plain_gamma_cases by auto
  with w show "dirac_trace g eps I (w ! 0) rl trONE = Some 0"
    by (simp add: dirac_trace_def)
qed

theorem dirac_trace_vanishing_witness:
  "list_all (plain_gamma 0) (gamma_word 0 [''a'', ''b'', ''c''])
   \<and> odd (length (gamma_word 0 [''a'', ''b'', ''c'']))
   \<and> dirac_trace sample_metric sample_eps 0 (Ncmul (gamma_word 0 [''a'', ''b'', ''c''])) 0 4 = Some 0
   \<and> dirac_trace sample_metric sample_eps 0
        (Ncmul (dirac_gamma5 0 # gamma_word 0 [''a'', ''b'', ''c''])) 0 4 = Some 0
   \<and> list_all (plain_gamma 0) (gamma_word 0 [''a'', ''b''])
   \<and> dirac_trace sample_metric sample_eps 0
        (Ncmul (dirac_gamma5 0 # gamma_word 0 [''a'', ''b''])) 0 4 = Some 0
   \<and> dirac_trace sample_metric sample_eps 0 (gamma_word 0 [''a''] ! 0) 0 4 = Some 0"
  using dirac_trace_vanishing [of 0 "gamma_word 0 [''a'', ''b'', ''c'']" sample_metric sample_eps 0 4]
    dirac_trace_vanishing [of 0 "gamma_word 0 [''a'', ''b'']" sample_metric sample_eps 0 4]
    dirac_trace_vanishing [of 0 "gamma_word 0 [''a'']" sample_metric sample_eps 0 4]
  by (simp add: gamma_word_def)

section \<open>Properties of the tensor evaluation rules\<close>

lemma fold_minkowski:
  "list_all is_varidx ixs \<Longrightarrow>
     fold (minkowski_sign_step pos_sig) ixs (Some s)
       = Some (s * prod_list (map (minkowski_factor pos_sig) ixs))"
proof (induction ixs arbitrary: s)
  case Nil then show ?case by simp
next
  case (Cons x xs)
  then show ?case
    by (simp add: minkowski_sign_step_def minkowski_factor_def)
qed

lemma dummy_same_value:
  assumes "\<And>i j. dp i j \<Longrightarrow> get_value i = get_value j"
  shows "get_dummy_indices dp ixs \<noteq> [] \<Longrightarrow> \<not> distinct (map get_value ixs)"
proof (induction ixs)
  case Nil then show ?case by simp
next
  case (Cons x xs)
  show ?case
  proof (cases "list_ex (dp x) xs")
    case True
    then obtain y where "y \<in> set xs" "dp x y" by (auto simp: list_ex_iff)
    then have "get_value x = get_value y" using assms by simp
    with \<open>y \<in> set xs\<close> show ?thesis by force
  next
    case False
    with Cons show ?thesis by simp
  qed
qed

lemma those_to_int:
  "list_all (\<lambda>n. 0 \<le> n \<and> int_range n) ns \<Longrightarrow> those (map to_int (map Numeric ns)) = Some ns"
  by (induction ns) simp_all

lemma values_nonnegint:
  assumes "map get_value ixs = map Numeric ns" and "list_all (\<lambda>n. 0 \<le> n \<and> int_range n) ns"
  shows "all_index_values_are_nonnegint ixs"
proof -
  have "list_all (\<lambda>a. case a of Numeric n \<Rightarrow> 0 \<le> n | Symbol s \<Rightarrow> False) (map Numeric ns)"
    using assms(2) by (induction ns) simp_all
  then have "list_all (\<lambda>a. case a of Numeric n \<Rightarrow> 0 \<le> n | Symbol s \<Rightarrow> False) (map get_value ixs)"
    using assms(1) by simp
  then show ?thesis
    by (simp add: all_index_values_are_nonnegint_def list_all_iff)
qed

lemma get_dummy_indices_nonempty:
  "get_dummy_indices dp ixs \<noteq> [] \<longleftrightarrow> (\<exists>p q. p < q \<and> q < length ixs \<and> dp (ixs ! p) (ixs ! q))"
proof (induction ixs)
  case Nil then show ?case by simp
next
  case (Cons x xs)
  have ex_iff: "list_ex (dp x) xs \<longleftrightarrow> (\<exists>q. 0 < q \<and> q < length (x # xs) \<and> dp ((x # xs) ! 0) ((x # xs) ! q))"
  proof
    assume "list_ex (dp x) xs"
    then obtain k where "k < length xs" "dp x (xs ! k)"
      by (auto simp: list_ex_iff in_set_conv_nth)
    then have "0 < Suc k \<and> Suc k < length (x # xs) \<and> dp ((x # xs) ! 0) ((x # xs) ! Suc k)" by simp
    then show "\<exists>q. 0 < q \<and> q < length (x # xs) \<and> dp ((x # xs) ! 0) ((x # xs) ! q)" by blast
  next
    assume "\<exists>q. 0 < q \<and> q < length (x # xs) \<and> dp ((x # xs) ! 0) ((x # xs) ! q)"
    then obtain q where q: "0 < q" "q < length (x # xs)" "dp x ((x # xs) ! q)" by auto
    then obtain k where "q = Suc k" by (cases q) auto
    with q show "list_ex (dp x) xs" by (auto simp: list_ex_iff)
  qed
  have tail_iff: "(\<exists>p q. p < q \<and> q < length xs \<and> dp (xs ! p) (xs ! q))
      \<longleftrightarrow> (\<exists>p q. 0 < p \<and> p < q \<and> q < length (x # xs) \<and> dp ((x # xs) ! p) ((x # xs) ! q))"
  proof
    assume "\<exists>p q. p < q \<and> q < length xs \<and> dp (xs ! p) (xs ! q)"
    then obtain p q where "p < q" "q < length xs" "dp (xs ! p) (xs ! q)" by blast
    then have "0 < Suc p \<and> Suc p < Suc q \<and> Suc q < length (x # xs)
        \<and> dp ((x # xs) ! Suc p) ((x # xs) ! Suc q)" by simp
    then show "\<exists>p q. 0 < p \<and> p < q \<and> q < length (x # xs) \<and> dp ((x # xs) ! p) ((x # xs) ! q)"
      by blast
  next
    assume "\<exists>p q. 0 < p \<and> p < q \<and> q < length (x # xs) \<and> dp ((x # xs) ! p) ((x # xs) ! q)"
    then obtain p q where pq: "0 < p" "p < q" "q < length (x # xs)" "dp ((x # xs) ! p) ((x # xs) ! q)"
      by blast
    then obtain p' q' where "p = Suc p'" "q = Suc q'" by (cases p; cases q) auto
    with pq have "p' < q' \<and> q' < length xs \<and> dp (xs ! p') (xs ! q')" by simp
    then show "\<exists>p q. p < q \<and> q < length xs \<and> dp (xs ! p) (xs ! q)" by blast
  qed
  have split: "(\<exists>p q. p < q \<and> q < length (x # xs) \<and> dp ((x # xs) ! p) ((x # xs) ! q))
      \<longleftrightarrow> (\<exists>q. 0 < q \<and> q < length (x # xs) \<and> dp ((x # xs) ! 0) ((x # xs) ! q))
        \<or> (\<exists>p q. 0 < p \<and> p < q \<and> q < length (x # xs) \<and> dp ((x # xs) ! p) ((x # xs) ! q))"
    by (metis gr0I)
  have "get_dummy_indices dp (x # xs) \<noteq> []
      \<longleftrightarrow> list_ex (dp x) xs \<or> get_dummy_indices dp xs \<noteq> []"
    by simp
  also have "\<dots> \<longleftrightarrow> (\<exists>q. 0 < q \<and> q < length (x # xs) \<and> dp ((x # xs) ! 0) ((x # xs) ! q))
        \<or> (\<exists>p q. 0 < p \<and> p < q \<and> q < length (x # xs) \<and> dp ((x # xs) ! p) ((x # xs) ! q))"
    by (simp only: ex_iff Cons.IH tail_iff)
  also have "\<dots> \<longleftrightarrow> (\<exists>p q. p < q \<and> q < length (x # xs) \<and> dp ((x # xs) ! p) ((x # xs) ! q))"
    by (simp only: split)
  finally show ?case .
qed

text \<open>
  Claim C6, as amended. An epsilon tensor whose indices are all bound to concrete non-negative
  integers (in the range of an \<^verbatim>\<open>int\<close>) evaluates to the permutation sign of the values (0 if
  a value repeats); in the Minkowski flavour, whose indices are of type \<^verbatim>\<open>varidx\<close>, the result
  is multiplied, for each covariant index, by \<open>-1\<close> if the index is bound to 0 and the
  signature flag is set, by \<open>-1\<close> if it is bound to a nonzero value and the signature flag is
  not set, and by \<open>+1\<close> otherwise. The dummy-pair test is any test that pairs only indices of
  the same value.
\<close>

theorem tensepsilon_eval_numeric:
  assumes "\<And>i j. dp i j \<Longrightarrow> get_value i = get_value j"
    and "map get_value ixs = map Numeric ns"
    and "list_all (\<lambda>n. 0 \<le> n \<and> int_range n) ns"
    and "minkowski \<longrightarrow> list_all is_varidx ixs"
  shows "tensepsilon_eval_indexed dp minkowski pos_sig ixs
           = Some (Atom (Numeric (permutation_sign ns
                * (if minkowski then prod_list (map (minkowski_factor pos_sig) ixs) else 1))))"
proof (cases "get_dummy_indices dp ixs = []")
  case True
  have n: "all_index_values_are_nonnegint ixs"
    using assms(2,3) by (rule values_nonnegint)
  have "map (\<lambda>i. to_int (get_value i)) ixs = map to_int (map get_value ixs)"
    by simp
  then have t: "those (map (\<lambda>i. to_int (get_value i)) ixs) = Some ns"
    using assms(2,3) by (simp only: those_to_int)
  show ?thesis
    using True n t assms(4) by (simp add: tensepsilon_eval_indexed_def Let_def fold_minkowski)
next
  case False
  then have "\<not> distinct (map get_value ixs)"
    using dummy_same_value [of dp ixs] assms(1) by blast
  then have "\<not> distinct ns"
    using assms(2) by (simp add: distinct_map inj_on_def)
  then have "permutation_sign ns = 0"
    by (simp add: permutation_sign_def)
  with False show ?thesis
    by (simp add: tensepsilon_eval_indexed_def ex0_def)
qed

theorem tensepsilon_eval_numeric_witness:
  "map get_value [num_varidx 1 False, num_varidx 0 True, num_varidx 2 True, num_varidx 3 False]
      = map Numeric [1, 0, 2, 3]
   \<and> list_all (\<lambda>n. 0 \<le> n \<and> int_range n) [1, 0, 2, 3]
   \<and> list_all is_varidx
      [num_varidx 1 False, num_varidx 0 True, num_varidx 2 True, num_varidx 3 False]
   \<and> tensepsilon_eval_indexed sample_dummy_pair True True
      [num_varidx 1 False, num_varidx 0 True, num_varidx 2 True, num_varidx 3 False]
     = Some (Atom (Numeric 1))
   \<and> tensepsilon_eval_indexed sample_dummy_pair True False
      [num_varidx 1 False, num_varidx 0 True, num_varidx 2 True, num_varidx 3 False]
     = Some (Atom (Numeric 1))"
proof -
  let ?L = "[num_varidx 1 False, num_varidx 0 True, num_varidx 2 True, num_varidx 3 False]"
  have h1: "\<And>i j. sample_dummy_pair i j \<Longrightarrow> get_value i = get_value j"
    by (simp add: sample_dummy_pair_def)
  have h2: "map get_value ?L = map Numeric [1, 0, 2, 3]"
    by (simp add: num_varidx_def)
  have h3: "list_all (\<lambda>n. 0 \<le> n \<and> int_range n) [1, 0, 2, 3]"
    by (simp add: int_range_def)
  have h4: "True \<longrightarrow> list_all is_varidx ?L"
    by (simp add: is_varidx_def num_varidx_def)
  have v: "permutation_sign [1, 0, 2, 3] = - 1"
    by (simp add: permutation_sign_def)
  have f: "prod_list (map (minkowski_factor True) ?L) = - 1"
     "prod_list (map (minkowski_factor False) ?L) = - 1"
    by (simp_all add: minkowski_factor_def is_covariant_def is_zero_def num_varidx_def)
  show ?thesis
    using tensepsilon_eval_numeric [of sample_dummy_pair ?L "[1, 0, 2, 3]" True True, OF h1 h2 h3 h4]
      tensepsilon_eval_numeric [of sample_dummy_pair ?L "[1, 0, 2, 3]" True False, OF h1 h2 h3 h4]
      h2 h3 h4 v f by simp
qed

text \<open>The claim as stated fails for a covariant index bound to a nonzero value: in
  \<^verbatim>\<open>lorentz_eps\<close> with the default signature, \<open>eps(0, 1, 2, 3)\<close> with the index of value 1
  covariant evaluates to \<open>-1\<close>, where the claim gives the bare permutation sign \<open>+1\<close>.\<close>

theorem tensepsilon_eval_counterexample:
  "tensepsilon_eval_indexed sample_dummy_pair True False
      [num_varidx 0 False, num_varidx 1 True, num_varidx 2 False, num_varidx 3 False]
     = Some (Atom (Numeric (- 1)))
   \<and> epsilon_value_spec True False [0, 1, 2, 3]
      [num_varidx 0 False, num_varidx 1 True, num_varidx 2 False, num_varidx 3 False] = 1
   \<and> tensepsilon_eval_indexed sample_dummy_pair True False
      [num_varidx 0 False, num_varidx 1 True, num_varidx 2 False, num_varidx 3 False]
     \<noteq> Some (Atom (Numeric (epsilon_value_spec True False [0, 1, 2, 3]
      [num_varidx 0 False, num_varidx 1 True, num_varidx 2 False, num_varidx 3 False])))"
  by (simp add: tensepsilon_eval_indexed_def epsilon_value_spec_def permutation_sign_def
        all_index_values_are_nonnegint_def sample_dummy_pair_def num_varidx_def int_range_def
        minkowski_sign_step_def is_varidx_def is_covariant_def is_zero_def)

text \<open>
  Claim C10. An indexed spinor metric or epsilon tensor whose own index list contains a dummy
  pair evaluates to 0, whatever the indices are (symbolic or numeric): the test for dummy
  indices comes before the numeric evaluation.
\<close>

theorem antisymmetric_self_contraction_zero:
  "(\<exists>p q. p < q \<and> q < length ixs \<and> dp (ixs ! p) (ixs ! q)) \<longrightarrow>
     tensepsilon_eval_indexed dp minkowski pos_sig ixs = Some ex0
     \<and> (length ixs = 2 \<longrightarrow> spinmetric_eval_indexed dp ixs = Some ex0)"
proof (intro impI conjI)
  assume a: "\<exists>p q. p < q \<and> q < length ixs \<and> dp (ixs ! p) (ixs ! q)"
  then have d: "get_dummy_indices dp ixs \<noteq> []"
    by (simp add: get_dummy_indices_nonempty)
  then show "tensepsilon_eval_indexed dp minkowski pos_sig ixs = Some ex0"
    by (simp add: tensepsilon_eval_indexed_def)
  assume "length ixs = 2"
  then obtain i1 i2 where "ixs = [i1, i2]"
    by (cases ixs; simp; cases "tl ixs"; simp)
  with d show "spinmetric_eval_indexed dp ixs = Some ex0"
    by (simp add: spinmetric_eval_indexed_def)
qed

theorem antisymmetric_self_contraction_zero_witness:
  "(\<exists>p q. p < q \<and> q < length [sym_varidx ''mu'' False, sym_varidx ''nu'' False, sym_varidx ''mu'' True]
       \<and> sample_dummy_pair ([sym_varidx ''mu'' False, sym_varidx ''nu'' False, sym_varidx ''mu'' True] ! p)
            ([sym_varidx ''mu'' False, sym_varidx ''nu'' False, sym_varidx ''mu'' True] ! q))
   \<and> tensepsilon_eval_indexed sample_dummy_pair False False
        [sym_varidx ''mu'' False, sym_varidx ''nu'' False, sym_varidx ''mu'' True] = Some ex0
   \<and> spinmetric_eval_indexed sample_dummy_pair
        [Idx (Symbol ''A'') (Numeric 2) (c_spinidx False False),
         Idx (Symbol ''A'') (Numeric 2) (c_spinidx True False)] = Some ex0"
proof -
  let ?L = "[sym_varidx ''mu'' False, sym_varidx ''nu'' False, sym_varidx ''mu'' True]"
  let ?S = "[Idx (Symbol ''A'') (Numeric 2) (c_spinidx False False),
             Idx (Symbol ''A'') (Numeric 2) (c_spinidx True False)]"
  have "0 < (2::nat) \<and> 2 < length ?L \<and> sample_dummy_pair (?L ! 0) (?L ! 2)"
    by (simp add: sample_dummy_pair_def sym_varidx_def is_varidx_def is_covariant_def)
  then have h1: "\<exists>p q. p < q \<and> q < length ?L \<and> sample_dummy_pair (?L ! p) (?L ! q)"
    by blast
  have "0 < (1::nat) \<and> 1 < length ?S \<and> sample_dummy_pair (?S ! 0) (?S ! 1)"
    by (simp add: sample_dummy_pair_def is_varidx_def is_covariant_def)
  then have h2: "\<exists>p q. p < q \<and> q < length ?S \<and> sample_dummy_pair (?S ! p) (?S ! q)"
    by blast
  show ?thesis
    using antisymmetric_self_contraction_zero [of ?L sample_dummy_pair False False]
      antisymmetric_self_contraction_zero [of ?S sample_dummy_pair False False] h1 h2
    by simp
qed


section \<open>Properties of the contraction rules\<close>

declare all_clifford_between.simps [simp del]
declare gather_S.simps [simp del]

text \<open>
  Claim C7. When \<^verbatim>\<open>minimal_dim\<close> fails for the candidate dummy pair (the first index of
  \<^verbatim>\<open>other\<close> that pairs with the first slot of \<^verbatim>\<open>self\<close>, or with the second slot when the first
  slot offers no candidate), \<^verbatim>\<open>replace_contr_index\<close> returns false and leaves \<^verbatim>\<open>*self\<close> and
  \<^verbatim>\<open>*other\<close> as they were; for a two-index \<^verbatim>\<open>self\<close> it always returns normally.
\<close>

theorem replace_contr_index_incomparable:
  "indices self = [i1, i2] \<longrightarrow>
     (\<exists>r. replace_contr_index dp md self other = Some r)
   \<and> (is_symbolic i1 \<and> find (dp i1) (indices other) = Some other_idx \<and> md i1 other_idx = None
        \<longrightarrow> replace_contr_index dp md self other = Some (False, self, other))
   \<and> ((\<not> is_symbolic i1 \<or> find (dp i1) (indices other) = None)
        \<and> is_symbolic i2 \<and> find (dp i2) (indices other) = Some other_idx \<and> md i2 other_idx = None
        \<longrightarrow> replace_contr_index dp md self other = Some (False, self, other))"
  by (auto simp add: replace_contr_index_def replace_contr_index_pass_def split: option.splits)

theorem replace_contr_index_incomparable_witness:
  "indices (Indexed tensmetric [sym_varidx ''mu'' False, sym_varidx ''nu'' False])
      = [sym_varidx ''mu'' False, sym_varidx ''nu'' False]
   \<and> is_symbolic (sym_varidx ''mu'' False)
   \<and> find (sample_dummy_pair (sym_varidx ''mu'' False))
        (indices (Indexed (symbol_base ''p'') [Idx (Symbol ''mu'') (Symbol ''E'') (c_varidx True)]))
      = Some (Idx (Symbol ''mu'') (Symbol ''E'') (c_varidx True))
   \<and> sample_minimal_dim (sym_varidx ''mu'' False) (Idx (Symbol ''mu'') (Symbol ''E'') (c_varidx True)) = None
   \<and> replace_contr_index sample_dummy_pair sample_minimal_dim
        (Indexed tensmetric [sym_varidx ''mu'' False, sym_varidx ''nu'' False])
        (Indexed (symbol_base ''p'') [Idx (Symbol ''mu'') (Symbol ''E'') (c_varidx True)])
      = Some (False, Indexed tensmetric [sym_varidx ''mu'' False, sym_varidx ''nu'' False],
              Indexed (symbol_base ''p'') [Idx (Symbol ''mu'') (Symbol ''E'') (c_varidx True)])
   \<and> \<not> is_symbolic (num_varidx 1 False)
   \<and> replace_contr_index sample_dummy_pair sample_minimal_dim
        (Indexed tensmetric [num_varidx 1 False, sym_varidx ''mu'' False])
        (Indexed (symbol_base ''p'') [Idx (Symbol ''mu'') (Symbol ''E'') (c_varidx True)])
      = Some (False, Indexed tensmetric [num_varidx 1 False, sym_varidx ''mu'' False],
              Indexed (symbol_base ''p'') [Idx (Symbol ''mu'') (Symbol ''E'') (c_varidx True)])"
proof -
  let ?o = "Idx (Symbol ''mu'') (Symbol ''E'') (c_varidx True)"
  have h: "is_symbolic (sym_varidx ''mu'' False)"
    "find (sample_dummy_pair (sym_varidx ''mu'' False)) (indices (Indexed (symbol_base ''p'') [?o])) = Some ?o"
    "sample_minimal_dim (sym_varidx ''mu'' False) ?o = None"
    "\<not> is_symbolic (num_varidx 1 False)"
    by (simp_all add: is_symbolic_def sym_varidx_def num_varidx_def sample_dummy_pair_def
          sample_minimal_dim_def is_varidx_def is_covariant_def)
  show ?thesis
    using replace_contr_index_incomparable
        [of "Indexed tensmetric [sym_varidx ''mu'' False, sym_varidx ''nu'' False]"
            "sym_varidx ''mu'' False" "sym_varidx ''nu'' False"
            sample_dummy_pair sample_minimal_dim "Indexed (symbol_base ''p'') [?o]" ?o]
      replace_contr_index_incomparable
        [of "Indexed tensmetric [num_varidx 1 False, sym_varidx ''mu'' False]"
            "num_varidx 1 False" "sym_varidx ''mu'' False"
            sample_dummy_pair sample_minimal_dim "Indexed (symbol_base ''p'') [?o]" ?o]
      h
    by simp
qed

text \<open>
  Claim C9. Two spinor metrics that share a dummy index pair collapse in four
  slot-correspondence sub-cases, tried in this order: first slot with first slot (then 2 if
  the second slots match as well, else the delta tensor of the second slots), first slot with
  second slot (then \<open>-2\<close> if the other crossed pair matches as well, else minus the delta
  tensor of the remaining indices), second slot with first slot (minus the delta tensor),
  second slot with second slot (the delta tensor). The partner becomes 1. Each sub-case is
  stated under the condition that the earlier ones do not apply.
\<close>

theorem spinmetric_pair_contraction:
  "indices self = [s1, s2] \<and> op0 other = Some spinmetric \<and> indices other = [o1, o2] \<longrightarrow>
     (dp s1 o1 \<and> dp s2 o2 \<longrightarrow> spinmetric_contract_with dp self other = Some (True, ex2, ex1))
   \<and> (dp s1 o1 \<and> \<not> dp s2 o2 \<longrightarrow>
        spinmetric_contract_with dp self other = Some (True, delta_tensor s2 o2, ex1))
   \<and> (\<not> dp s1 o1 \<and> dp s1 o2 \<and> dp s2 o1 \<longrightarrow>
        spinmetric_contract_with dp self other = Some (True, ex_2, ex1))
   \<and> (\<not> dp s1 o1 \<and> dp s1 o2 \<and> \<not> dp s2 o1 \<longrightarrow>
        spinmetric_contract_with dp self other = Some (True, Neg (delta_tensor s2 o1), ex1))
   \<and> (\<not> dp s1 o1 \<and> \<not> dp s1 o2 \<and> dp s2 o1 \<longrightarrow>
        spinmetric_contract_with dp self other = Some (True, Neg (delta_tensor s1 o2), ex1))
   \<and> (\<not> dp s1 o1 \<and> \<not> dp s1 o2 \<and> \<not> dp s2 o1 \<and> dp s2 o2 \<longrightarrow>
        spinmetric_contract_with dp self other = Some (True, delta_tensor s1 o1, ex1))"
  by (simp add: spinmetric_contract_with_def spinmetric_pair_def)

theorem spinmetric_pair_contraction_witness:
  "spinmetric_contract_with sample_dummy_pair
      (Indexed spinmetric [Idx (Symbol ''A'') (Numeric 2) (c_spinidx False False),
                           Idx (Symbol ''B'') (Numeric 2) (c_spinidx False False)])
      (Indexed spinmetric [Idx (Symbol ''A'') (Numeric 2) (c_spinidx True False),
                           Idx (Symbol ''B'') (Numeric 2) (c_spinidx True False)])
     = Some (True, ex2, ex1)
   \<and> spinmetric_contract_with sample_dummy_pair
      (Indexed spinmetric [Idx (Symbol ''A'') (Numeric 2) (c_spinidx False False),
                           Idx (Symbol ''B'') (Numeric 2) (c_spinidx False False)])
      (Indexed spinmetric [Idx (Symbol ''B'') (Numeric 2) (c_spinidx True False),
                           Idx (Symbol ''A'') (Numeric 2) (c_spinidx True False)])
     = Some (True, ex_2, ex1)
   \<and> spinmetric_contract_with sample_dummy_pair
      (Indexed spinmetric [Idx (Symbol ''A'') (Numeric 2) (c_spinidx False False),
                           Idx (Symbol ''B'') (Numeric 2) (c_spinidx False False)])
      (Indexed spinmetric [Idx (Symbol ''A'') (Numeric 2) (c_spinidx True False),
                           Idx (Symbol ''C'') (Numeric 2) (c_spinidx True False)])
     = Some (True, delta_tensor (Idx (Symbol ''B'') (Numeric 2) (c_spinidx False False))
                                (Idx (Symbol ''C'') (Numeric 2) (c_spinidx True False)), ex1)
   \<and> spinmetric_contract_with sample_dummy_pair
      (Indexed spinmetric [Idx (Symbol ''A'') (Numeric 2) (c_spinidx False False),
                           Idx (Symbol ''B'') (Numeric 2) (c_spinidx False False)])
      (Indexed spinmetric [Idx (Symbol ''C'') (Numeric 2) (c_spinidx True False),
                           Idx (Symbol ''A'') (Numeric 2) (c_spinidx True False)])
     = Some (True, Neg (delta_tensor (Idx (Symbol ''B'') (Numeric 2) (c_spinidx False False))
                                     (Idx (Symbol ''C'') (Numeric 2) (c_spinidx True False))), ex1)
   \<and> spinmetric_contract_with sample_dummy_pair
      (Indexed spinmetric [Idx (Symbol ''A'') (Numeric 2) (c_spinidx False False),
                           Idx (Symbol ''B'') (Numeric 2) (c_spinidx False False)])
      (Indexed spinmetric [Idx (Symbol ''B'') (Numeric 2) (c_spinidx True False),
                           Idx (Symbol ''C'') (Numeric 2) (c_spinidx True False)])
     = Some (True, Neg (delta_tensor (Idx (Symbol ''A'') (Numeric 2) (c_spinidx False False))
                                     (Idx (Symbol ''C'') (Numeric 2) (c_spinidx True False))), ex1)
   \<and> spinmetric_contract_with sample_dummy_pair
      (Indexed spinmetric [Idx (Symbol ''A'') (Numeric 2) (c_spinidx False False),
                           Idx (Symbol ''B'') (Numeric 2) (c_spinidx False False)])
      (Indexed spinmetric [Idx (Symbol ''C'') (Numeric 2) (c_spinidx True False),
                           Idx (Symbol ''B'') (Numeric 2) (c_spinidx True False)])
     = Some (True, delta_tensor (Idx (Symbol ''A'') (Numeric 2) (c_spinidx False False))
                                (Idx (Symbol ''C'') (Numeric 2) (c_spinidx True False)), ex1)"
proof -
  let ?A = "Idx (Symbol ''A'') (Numeric 2) (c_spinidx False False)"
  let ?B = "Idx (Symbol ''B'') (Numeric 2) (c_spinidx False False)"
  let ?a = "Idx (Symbol ''A'') (Numeric 2) (c_spinidx True False)"
  let ?b = "Idx (Symbol ''B'') (Numeric 2) (c_spinidx True False)"
  let ?c = "Idx (Symbol ''C'') (Numeric 2) (c_spinidx True False)"
  have d: "sample_dummy_pair ?A ?a" "sample_dummy_pair ?B ?b"
    "\<not> sample_dummy_pair ?A ?b" "\<not> sample_dummy_pair ?B ?a"
    "\<not> sample_dummy_pair ?A ?c" "\<not> sample_dummy_pair ?B ?c"
    by (simp_all add: sample_dummy_pair_def is_varidx_def is_covariant_def)
  show ?thesis
    using spinmetric_pair_contraction [of "Indexed spinmetric [?A, ?B]" ?A ?B "Indexed spinmetric [?a, ?b]" ?a ?b sample_dummy_pair]
      spinmetric_pair_contraction [of "Indexed spinmetric [?A, ?B]" ?A ?B "Indexed spinmetric [?b, ?a]" ?b ?a sample_dummy_pair]
      spinmetric_pair_contraction [of "Indexed spinmetric [?A, ?B]" ?A ?B "Indexed spinmetric [?a, ?c]" ?a ?c sample_dummy_pair]
      spinmetric_pair_contraction [of "Indexed spinmetric [?A, ?B]" ?A ?B "Indexed spinmetric [?c, ?a]" ?c ?a sample_dummy_pair]
      spinmetric_pair_contraction [of "Indexed spinmetric [?A, ?B]" ?A ?B "Indexed spinmetric [?b, ?c]" ?b ?c sample_dummy_pair]
      spinmetric_pair_contraction [of "Indexed spinmetric [?A, ?B]" ?A ?B "Indexed spinmetric [?c, ?b]" ?c ?b sample_dummy_pair]
      d
    by simp
qed

text \<open>
  Claim C3. With exactly two factors between the contracted pair, both Gamma factors,
  \<^verbatim>\<open>gamma~mu gamma~a gamma~b gamma.mu\<close> is rewritten to
  \<open>4 * lorentz_g(a, b) * ONE + (dim - 4) * gamma~a * gamma~b\<close>, where \<open>dim\<close> is the dimension of
  the index of \<^verbatim>\<open>*self\<close>; the three other entries become 1 and the rule returns true.
\<close>

theorem diracgamma_contract_gap2:
  "self + 3 = other \<and> other < length v
   \<and> v ! self = Clifford diracgamma [mu] rl
   \<and> v ! (self + 1) = Clifford diracgamma [a] rl1
   \<and> v ! (self + 2) = Clifford diracgamma [b] rl2
   \<and> is_clifford (v ! other) \<and> is_varidx a \<and> is_varidx b \<longrightarrow>
   diracgamma_contract_with v self other =
     Some (True,
       v[self := Add (Mul (Mul (Atom (Numeric 4)) (Indexed (minkmetric False) [a, b])) (dirac_ONE rl))
                     (Mul (Mul (Sub (Atom (get_dim mu)) (Atom (Numeric 4))) (Clifford diracgamma [a] rl1))
                          (Clifford diracgamma [b] rl2)),
         self + 1 := ex1, self + 2 := ex1, other := ex1])"
  by (auto simp add: diracgamma_contract_with_def op_idx_def lorentz_g_def Let_def)

theorem diracgamma_contract_gap2_witness:
  "diracgamma_contract_with (contracted_word [''a'', ''b'']) 0 3 =
     Some (True,
       [Add (Mul (Mul (Atom (Numeric 4))
                      (Indexed (minkmetric False) [sym_varidx ''a'' False, sym_varidx ''b'' False]))
                 (dirac_ONE 0))
            (Mul (Mul (Sub (Atom (Symbol ''D'')) (Atom (Numeric 4)))
                      (Clifford diracgamma [sym_varidx ''a'' False] 0))
                 (Clifford diracgamma [sym_varidx ''b'' False] 0)),
        ex1, ex1, ex1])"
  using diracgamma_contract_gap2 [of 0 3 "contracted_word [''a'', ''b'']" "sym_varidx ''mu'' False" 0
      "sym_varidx ''a'' False" 0 "sym_varidx ''b'' False" 0]
  by (simp add: contracted_word_def gamma_word_def sym_varidx_def is_varidx_def)
























section \<open>Properties of the normalizer and of the canonical orderer\<close>

declare adjacent_gammas.simps [simp del]
declare find_swap.simps [simp del]

lemma no_adjacent_nth:
  "no_adjacent P s \<Longrightarrow> Suc i < length s \<Longrightarrow> \<not> P (s ! i) (s ! Suc i)"
proof (induction P s arbitrary: i rule: no_adjacent.induct)
  case (1 P a b rest)
  then show ?case by (cases i) simp_all
qed simp_all

lemma sweep_step_fixed:
  "no_adjacent gamma5_after_other s \<Longrightarrow> Suc it < length s \<Longrightarrow>
     sweep_step it (s, sign, ch) = (s, sign, ch)"
  using no_adjacent_nth [of gamma5_after_other s it]
  by (auto simp add: sweep_step_def gamma5_after_other_def)

lemma inner_sweep_fixed:
  "no_adjacent gamma5_after_other s \<Longrightarrow> Suc it < length s \<Longrightarrow>
     inner_sweep it (s, sign, ch) = (s, sign, ch)"
  by (induction it) (simp_all add: sweep_step_fixed)

lemma outer_sweep_fixed:
  "no_adjacent gamma5_after_other s \<Longrightarrow> Suc n < length s \<Longrightarrow>
     outer_sweep n (s, sign, ch) = (s, sign, ch)"
  by (induction n) (simp_all add: inner_sweep_fixed sweep_step_fixed)

lemma remove_squares_fixed:
  "no_adjacent both_gamma5 (take 2 s) \<Longrightarrow> remove_squares s ch = (s, ch)"
proof (cases s)
  case Nil then show ?thesis by simp
next
  case (Cons a s')
  assume n: "no_adjacent both_gamma5 (take 2 s)"
  show ?thesis
  proof (cases s')
    case Nil with Cons show ?thesis by simp
  next
    case (Cons b rest)
    with \<open>s = a # s'\<close> n show ?thesis by (auto simp add: both_gamma5_def eval_nat_numeral)
  qed
qed

lemma gamma_has_index:
  "clifford_factor e \<Longrightarrow> op0 e = Some diracgamma \<Longrightarrow> \<exists>i. op_idx e (Suc 0) = Some i"
  by (cases e) (auto simp add: op_idx_def split: if_splits)

lemma adjacent_gammas_fixed:
  "no_adjacent equal_gammas s \<Longrightarrow> list_all clifford_factor s \<Longrightarrow> itend < length s \<Longrightarrow>
     adjacent_gammas rl it itend (s, ch) = Some (s, ch)"
proof (induction "itend - it" arbitrary: it)
  case 0
  then show ?case by (simp add: adjacent_gammas.simps [of rl it itend])
next
  case (Suc d)
  then have lt: "it < itend" and d: "d = itend - Suc it" by simp_all
  have IH: "adjacent_gammas rl (Suc it) itend (s, ch) = Some (s, ch)"
    using Suc.hyps(1) [OF d] Suc.prems by simp
  have ne: "\<not> equal_gammas (s ! it) (s ! Suc it)"
    using Suc.prems lt by (intro no_adjacent_nth) simp_all
  show ?case
  proof (cases "op0 (s ! it) = Some diracgamma \<and> op0 (s ! Suc it) = Some diracgamma")
    case False
    then show ?thesis using lt IH by (auto simp add: adjacent_gammas.simps [of rl it itend] Let_def)
  next
    case True
    have "clifford_factor (s ! it)" "clifford_factor (s ! Suc it)"
      using Suc.prems lt by (simp_all add: list_all_length)
    with True obtain ia ib where i: "op_idx (s ! it) (Suc 0) = Some ia" "op_idx (s ! Suc it) (Suc 0) = Some ib"
      using gamma_has_index by blast
    with ne True have "ia \<noteq> ib" by (auto simp add: equal_gammas_def)
    with True i lt IH show ?thesis
      by (simp add: adjacent_gammas.simps [of rl it itend] Let_def)
  qed
qed

lemma simplify_ncmul_fixed:
  assumes "normal_word v" "v \<noteq> []"
  shows "simplify_ncmul rl v = Some (simplified_ncmul_times v 1)"
proof -
  from assms(1) have f: "filter (\<lambda>e. op0 e \<noteq> Some diracone) v = v"
    and g: "no_adjacent gamma5_after_other v" and q: "no_adjacent both_gamma5 (take 2 v)"
    and e: "no_adjacent equal_gammas v" and c: "list_all clifford_factor v"
    by (simp_all add: normal_word_def filter_id_conv list_all_iff)
  have sw: "(if 2 \<le> length v then outer_sweep (length v - 2) (v, 1, False) else (v, 1, False)) = (v, 1, False)"
    using g by (simp add: outer_sweep_fixed)
  have rs: "remove_squares v False = (v, False)" using q by (rule remove_squares_fixed)
  have ad: "(if 2 \<le> length v then adjacent_gammas rl 0 (length v - 1) (v, False) else Some (v, False)) = Some (v, False)"
    using e c by (simp add: adjacent_gammas_fixed)
  show ?thesis
    using assms(2) by (simp add: simplify_ncmul_def f sw rs ad)
qed

lemma find_swap_sorted:
  "Suc ntl = length v \<Longrightarrow> indices_sorted cmp (drop it v) \<Longrightarrow> find_swap cmp it ntl v = Some None"
proof (induction "ntl - it" arbitrary: it)
  case 0
  then show ?case by (simp add: find_swap.simps [of cmp it ntl v])
next
  case (Suc d)
  then have lt: "it < ntl" and d: "d = ntl - Suc it" by simp_all
  with Suc.prems(1) have "drop it v = v ! it # v ! Suc it # drop (Suc (Suc it)) v"
    by (simp add: Cons_nth_drop_Suc)
  with Suc.prems obtain i0 i1 where i: "op_idx (v ! it) (Suc 0) = Some i0"
      "op_idx (v ! Suc it) (Suc 0) = Some i1" "cmp i0 i1 \<le> 0"
    and r: "indices_sorted cmp (v ! Suc it # drop (Suc (Suc it)) v)"
    by (auto split: option.splits)
  from r lt Suc.prems(1) have "indices_sorted cmp (drop (Suc it) v)"
    by (simp add: Cons_nth_drop_Suc)
  then have "find_swap cmp (Suc it) ntl v = Some None"
    using Suc.hyps(1) [OF d] Suc.prems(1) by simp
  with lt i show ?case
    by (simp add: find_swap.simps [of cmp it ntl v])
qed

lemma canonicalize_word_sorted:
  assumes t: "is_clifford_tinfo_any (return_type_tinfo (Ncmul v))"
    and x: "expand_ex (Ncmul v) = Ncmul v" and s: "sorted_word cmp v"
  shows "canonicalize_clifford expand_ex ncmul_ctor cmp fuel (Ncmul v) = Some (Ncmul v)"
proof -
  from t obtain b ixs rl fs where v: "v = Clifford b ixs rl # fs"
    by (cases "Ncmul v" rule: return_type_tinfo.cases) (auto simp add: is_clifford_tinfo_any_def)
  let ?start = "if op0 (v ! 0) = Some diracgamma5 then 1 else 0 :: nat"
  have "indices_sorted cmp (drop ?start v)"
    using s v by (auto simp add: sorted_word_def split: if_splits)
  moreover have "Suc (length v - 1) = length v" using v by simp
  ultimately have "find_swap cmp ?start (length v - 1) v = Some None"
    by (intro find_swap_sorted)
  moreover have "\<not> length v - 1 < ?start"
    using s v by (auto simp add: sorted_word_def split: if_splits)
  ultimately show ?thesis
    using t x v by (simp add: Let_def)
qed

lemma canonicalize_sorted:
  "words_sorted expand_ex cmp e \<Longrightarrow> canonicalize_clifford expand_ex ncmul_ctor cmp fuel e = Some e"
proof (induction e)
  case (Ncmul v)
  show ?case
  proof (cases "is_clifford_tinfo_any (return_type_tinfo (Ncmul v))")
    case True
    with Ncmul.prems show ?thesis by (simp add: canonicalize_word_sorted del: canonicalize_clifford.simps)
  next
    case False
    then show ?thesis by simp
  qed
qed simp_all

lemma adjacent_gammas_two:
  "op0 a \<noteq> Some diracgamma \<or> op0 b \<noteq> Some diracgamma \<Longrightarrow>
     adjacent_gammas rl 0 (Suc 0) ([a, b], ch) = Some ([a, b], ch)"
  by (auto simp add: adjacent_gammas.simps [of rl 0 "Suc 0"] adjacent_gammas.simps [of rl "Suc 0" "Suc 0"] Let_def)


text \<open>
  Claim C5. For every index \<open>mu\<close> and every representation label, normalization turns
  \<^verbatim>\<open>gamma5 gamma~mu\<close> into \<open>+1\<close> times the word \<^verbatim>\<open>gamma5 gamma~mu\<close> and \<^verbatim>\<open>gamma~mu gamma5\<close> into
  \<open>-1\<close> times the same word, so their sum is 0; it turns \<^verbatim>\<open>gamma5 gamma~mu gamma5\<close> into \<open>-1\<close>
  times \<^verbatim>\<open>gamma~mu\<close>, so its sum with \<^verbatim>\<open>gamma~mu\<close> is 0. The single calls of
  \<^verbatim>\<open>simplify_ncmul\<close> are given as well: two leading \<^verbatim>\<open>gamma5\<close> cancel (the empty word is
  \<^verbatim>\<open>ONE\<close>), and each swap of the sweep, which moves a \<^verbatim>\<open>gamma5\<close> to the left of a factor that
  is not \<^verbatim>\<open>gamma5\<close>, negates the sign and sets the flag.
\<close>

theorem gamma5_anticommutes:
  "normal_form (Suc (Suc fuel)) rl 1 [] [Clifford diracgamma5 [] rl, Clifford diracgamma [mu] rl]
     = Some (1, [], [Clifford diracgamma5 [] rl, Clifford diracgamma [mu] rl])
   \<and> normal_form (Suc (Suc fuel)) rl 1 [] [Clifford diracgamma [mu] rl, Clifford diracgamma5 [] rl]
     = Some (- 1, [], [Clifford diracgamma5 [] rl, Clifford diracgamma [mu] rl])
   \<and> normal_form (Suc (Suc fuel)) rl 1 []
        [Clifford diracgamma5 [] rl, Clifford diracgamma [mu] rl, Clifford diracgamma5 [] rl]
     = Some (- 1, [], [Clifford diracgamma [mu] rl])
   \<and> simplify_ncmul rl [Clifford diracgamma [mu] rl, Clifford diracgamma5 [] rl]
     = Some (nonsimplified_ncmul_times [Clifford diracgamma5 [] rl, Clifford diracgamma [mu] rl] (- 1))
   \<and> simplify_ncmul rl [Clifford diracgamma5 [] rl, Clifford diracgamma [mu] rl, Clifford diracgamma5 [] rl]
     = Some (nonsimplified_ncmul_times [Clifford diracgamma [mu] rl] (- 1))
   \<and> simplify_ncmul rl [Clifford diracgamma5 [] rl, Clifford diracgamma5 [] rl] = Some (ONE_times 1)
   \<and> (op0 (s ! it) \<noteq> Some diracgamma5 \<and> op0 (s ! (it + 1)) = Some diracgamma5 \<longrightarrow>
        sweep_step it (s, sign, ch) = (s[it := s ! (it + 1), it + 1 := s ! it], - sign, True))"
proof -
  let ?g5 = "Clifford diracgamma5 [] rl" and ?g = "Clifford diracgamma [mu] rl"
  have a: "simplify_ncmul rl [?g5, ?g] = Some (simplified_ncmul_times [?g5, ?g] 1)"
    by (simp add: simplify_ncmul_def sweep_step_def adjacent_gammas_two)
  have b: "simplify_ncmul rl [?g, ?g5] = Some (nonsimplified_ncmul_times [?g5, ?g] (- 1))"
    by (simp add: simplify_ncmul_def sweep_step_def adjacent_gammas_two)
  have c: "simplify_ncmul rl [?g5, ?g, ?g5] = Some (nonsimplified_ncmul_times [?g] (- 1))"
    by (simp add: simplify_ncmul_def sweep_step_def)
  have d: "simplify_ncmul rl [?g5, ?g5] = Some (ONE_times 1)"
    by (simp add: simplify_ncmul_def sweep_step_def)
  have e: "op0 (s ! it) \<noteq> Some diracgamma5 \<and> op0 (s ! (it + 1)) = Some diracgamma5 \<longrightarrow>
        sweep_step it (s, sign, ch) = (s[it := s ! (it + 1), it + 1 := s ! it], - sign, True)"
    by (simp add: sweep_step_def)
  show ?thesis
    using a b c d e by simp
qed

theorem gamma5_anticommutes_witness:
  "normal_form (Suc (Suc 0)) 0 1 [] [dirac_gamma5 0, num_gamma 1]
     = Some (1, [], [dirac_gamma5 0, num_gamma 1])
   \<and> normal_form (Suc (Suc 0)) 0 1 [] [num_gamma 1, dirac_gamma5 0]
     = Some (- 1, [], [dirac_gamma5 0, num_gamma 1])
   \<and> normal_form (Suc (Suc 0)) 0 1 [] [dirac_gamma5 0, num_gamma 1, dirac_gamma5 0]
     = Some (- 1, [], [num_gamma 1])
   \<and> op0 ([num_gamma 1, num_gamma 2, dirac_gamma5 0] ! Suc 0) \<noteq> Some diracgamma5
   \<and> op0 ([num_gamma 1, num_gamma 2, dirac_gamma5 0] ! (Suc 0 + 1)) = Some diracgamma5
   \<and> sweep_step (Suc 0) ([num_gamma 1, num_gamma 2, dirac_gamma5 0], 1, False)
      = ([num_gamma 1, dirac_gamma5 0, num_gamma 2], - 1, True)"
proof -
  let ?s = "[num_gamma 1, num_gamma 2, dirac_gamma5 0]"
  note T = gamma5_anticommutes [of 0 0 "num_varidx 1 False" ?s "Suc 0" 1 False]
  have p: "op0 (?s ! Suc 0) \<noteq> Some diracgamma5 \<and> op0 (?s ! (Suc 0 + 1)) = Some diracgamma5"
    by (simp add: num_gamma_def dirac_gamma5_def)
  with T have "sweep_step (Suc 0) (?s, 1, False)
      = (?s[Suc 0 := ?s ! (Suc 0 + 1), Suc 0 + 1 := ?s ! Suc 0], - 1, True)"
    by blast
  moreover have "?s[Suc 0 := ?s ! (Suc 0 + 1), Suc 0 + 1 := ?s ! Suc 0]
      = [num_gamma 1, dirac_gamma5 0, num_gamma 2]"
    by simp
  ultimately have q: "sweep_step (Suc 0) (?s, 1, False)
      = ([num_gamma 1, dirac_gamma5 0, num_gamma 2], - 1, True)"
    by (simp only:)
  from T have n: "normal_form (Suc (Suc 0)) 0 1 [] [dirac_gamma5 0, num_gamma 1]
       = Some (1, [], [dirac_gamma5 0, num_gamma 1])"
    "normal_form (Suc (Suc 0)) 0 1 [] [num_gamma 1, dirac_gamma5 0]
       = Some (- 1, [], [dirac_gamma5 0, num_gamma 1])"
    "normal_form (Suc (Suc 0)) 0 1 [] [dirac_gamma5 0, num_gamma 1, dirac_gamma5 0]
       = Some (- 1, [], [num_gamma 1])"
    unfolding dirac_gamma5_def num_gamma_def by blast+
  from n p q show ?thesis by blast
qed

text \<open>
  Claim C8. \<^verbatim>\<open>simplify_ncmul\<close> applied to a non-empty word on which no rewrite rule fires
  returns that word, held, with sign \<open>+1\<close> (and the normal form of the word is the word
  itself); \<^verbatim>\<open>canonicalize_clifford\<close> applied to an expression whose Clifford words are already
  sorted returns the expression unchanged, whatever the fuel is.
\<close>

theorem normalize_canonicalize_fixed_point:
  "(normal_word v \<and> v \<noteq> [] \<longrightarrow>
      simplify_ncmul rl v = Some (simplified_ncmul_times v 1)
      \<and> normal_form (Suc n) rl 1 [] v = Some (1, [], v))
   \<and> (words_sorted expand_ex cmp e \<longrightarrow>
        canonicalize_clifford expand_ex ncmul_ctor cmp fuel e = Some e)"
  by (simp add: simplify_ncmul_fixed canonicalize_sorted)

theorem normalize_canonicalize_fixed_point_witness:
  "normal_word [dirac_gamma5 0, num_gamma 2, num_gamma 1]
   \<and> simplify_ncmul 0 [dirac_gamma5 0, num_gamma 2, num_gamma 1]
      = Some (simplified_ncmul_times [dirac_gamma5 0, num_gamma 2, num_gamma 1] 1)
   \<and> normal_form 1 0 1 [] [dirac_gamma5 0, num_gamma 2, num_gamma 1]
      = Some (1, [], [dirac_gamma5 0, num_gamma 2, num_gamma 1])
   \<and> words_sorted (\<lambda>e. e) sample_compare
        (Add (Mul (Atom (Symbol ''m'')) (Ncmul [num_gamma 1, num_gamma 2, num_gamma 3]))
             (Ncmul [dirac_gamma5 0, num_gamma 0, num_gamma 3]))
   \<and> canonicalize_clifford (\<lambda>e. e) Ncmul sample_compare 0
        (Add (Mul (Atom (Symbol ''m'')) (Ncmul [num_gamma 1, num_gamma 2, num_gamma 3]))
             (Ncmul [dirac_gamma5 0, num_gamma 0, num_gamma 3]))
      = Some (Add (Mul (Atom (Symbol ''m'')) (Ncmul [num_gamma 1, num_gamma 2, num_gamma 3]))
                  (Ncmul [dirac_gamma5 0, num_gamma 0, num_gamma 3]))"
proof -
  have a: "normal_word [dirac_gamma5 0, num_gamma 2, num_gamma 1]"
    by (simp add: normal_word_def dirac_gamma5_def num_gamma_def num_varidx_def gamma5_after_other_def
          both_gamma5_def equal_gammas_def op_idx_def eval_nat_numeral)
  have b: "words_sorted (\<lambda>e. e) sample_compare
        (Add (Mul (Atom (Symbol ''m'')) (Ncmul [num_gamma 1, num_gamma 2, num_gamma 3]))
             (Ncmul [dirac_gamma5 0, num_gamma 0, num_gamma 3]))"
    by (simp add: sorted_word_def dirac_gamma5_def num_gamma_def num_varidx_def sample_compare_def
          is_clifford_tinfo_any_def op_idx_def)
  show ?thesis
    using normalize_canonicalize_fixed_point
        [of "[dirac_gamma5 0, num_gamma 2, num_gamma 1]" 0 0 "\<lambda>e. e" sample_compare
            "Add (Mul (Atom (Symbol ''m'')) (Ncmul [num_gamma 1, num_gamma 2, num_gamma 3]))
                 (Ncmul [dirac_gamma5 0, num_gamma 0, num_gamma 3])" Ncmul 0]
      a b
    by simp
qed

end
